theory Spec2Isabelle
  imports Main "HOL-Library.Word"
begin

section \<open>JavaScript values\<close>

text \<open>
  A JavaScript string is a sequence of UTF-16 code units. The fixed messages of the
  components are ASCII; \<open>js\<close> embeds such a literal.
\<close>

type_synonym jsstring = "16 word list"

definition js :: "string \<Rightarrow> jsstring" where
  "js s = map (\<lambda>c. word_of_nat (of_char c)) s"

text \<open>
  \<open>String.prototype.trim\<close> strips the WhiteSpace and LineTerminator code points
  from both ends.
\<close>

definition is_ws :: "16 word \<Rightarrow> bool" where
  "is_ws c \<longleftrightarrow> c \<in> set [0x9, 0xA, 0xB, 0xC, 0xD, 0x20, 0xA0, 0x1680,
     0x2000, 0x2001, 0x2002, 0x2003, 0x2004, 0x2005, 0x2006, 0x2007, 0x2008, 0x2009, 0x200A,
     0x2028, 0x2029, 0x202F, 0x205F, 0x3000, 0xFEFF]"

definition trim :: "jsstring \<Rightarrow> jsstring" where
  "trim s = rev (dropWhile is_ws (rev (dropWhile is_ws s)))"

text \<open>The empty string is the only falsy string.\<close>

definition truthy :: "jsstring \<Rightarrow> bool" where
  "truthy s \<longleftrightarrow> s \<noteq> []"

text \<open>
  A JavaScript number is a binary64 floating-point value. The numbers of the components
  are integers, held as \<open>int\<close>; the result of an addition or subtraction is the exact
  result rounded to 53 significant bits, to nearest, ties to even. \<open>bit_length m\<close> is
  the number of binary digits of \<open>m\<close>, so \<open>2 ^ (bit_length m - 53)\<close> is the distance
  between neighbouring binary64 values at the magnitude \<open>m\<close>. (The exponent range of
  binary64 plays no role: a finite value plus or minus 10 is below the overflow
  threshold.)
\<close>

fun bit_length :: "nat \<Rightarrow> nat" where
  "bit_length n = (if n = 0 then 0 else Suc (bit_length (n div 2)))"

definition round64 :: "int \<Rightarrow> int" where
  "round64 n =
     (let m = nat \<bar>n\<bar>;
          u = 2 ^ (bit_length m - 53);
          q = m div u;
          r = m mod u;
          q' = (if u < 2 * r \<or> (2 * r = u \<and> odd q) then q + 1 else q)
      in sgn n * int (q' * u))"

text \<open>Values of type \<open>any\<close>, and the argument objects handed to \<open>invoke\<close>.\<close>

datatype json = JNull | JBool bool | JNum int | JStr jsstring
  | JArr "json list" | JObj "(string \<times> json) list"

section \<open>The host: remote invocation, timers, toasts\<close>

text \<open>
  Calls into the host are recorded as events, in program order. \<open>Invoke c None\<close> is
  \<open>invoke(c)\<close> with the argument object left out. \<open>SetInterval cb ms h\<close> records
  \<open>setInterval(cb, ms)\<close> returning the handle \<open>h\<close>.
\<close>

datatype callback = FetchBlocksCb | RejectTimeoutCb

datatype event =
    Invoke string "(string \<times> json) list option"
  | SetTimeout callback nat
  | SetInterval callback nat nat
  | ClearInterval nat
  | ToastInfo jsstring
  | ToastError jsstring
  | ConsoleError jsstring jsstring

fun is_invoke :: "event \<Rightarrow> bool" where
  "is_invoke (Invoke c a) = True"
| "is_invoke e = False"

text \<open>
  What the backend does with one invocation: it answers with a value, it answers with an
  error, or it does not answer (within the time of interest, or ever).
\<close>

datatype 'a reply = Value 'a | Failure jsstring | Pending

datatype 'a settled = Fulfilled 'a | Rejected jsstring

text \<open>
  \<open>Promise.all\<close> of two promises rejects as soon as one of them rejects and fulfils
  when both have fulfilled (when both reject, the model reports the first one's error;
  no caller reads it).
\<close>

fun promise_all :: "'a reply \<Rightarrow> 'b reply \<Rightarrow> ('a \<times> 'b) reply" where
  "promise_all (Failure e) r = Failure e"
| "promise_all r (Failure e) = Failure e"
| "promise_all (Value a) (Value b) = Value (a, b)"
| "promise_all r1 r2 = Pending"

text \<open>
  \<open>Promise.race([p, timeoutPromise])\<close>: a promise that has not settled when the timer
  fires loses against \<open>reject(new Error('Request timeout'))\<close>.
\<close>

fun race_timeout :: "'a reply \<Rightarrow> 'a settled" where
  "race_timeout (Value x) = Fulfilled x"
| "race_timeout (Failure e) = Rejected e"
| "race_timeout Pending = Rejected (js ''Request timeout'')"

text \<open>A bare \<open>await p\<close>: the function resumes only once \<open>p\<close> has settled.\<close>

fun await :: "'a reply \<Rightarrow> 'a settled option" where
  "await (Value x) = Some (Fulfilled x)"
| "await (Failure e) = Some (Rejected e)"
| "await Pending = None"

text \<open>
  The result of running a function: it has returned, or it is suspended at an
  \<open>await\<close>; either way with the component state and the events so far.
\<close>

datatype 's step =
    Returned (state_of: 's) (events_of: "event list")
  | Suspended (state_of: 's) (events_of: "event list")

fun returned :: "'s step \<Rightarrow> bool" where
  "returned (Returned s es) = True"
| "returned (Suspended s es) = False"

section \<open>BlockExplorer.svelte\<close>

record BlockDetail =
  number :: int
  hash :: jsstring
  miner :: jsstring
  timestamp :: int
  transaction_count :: int
  transactions :: "json list"

record TransactionDetail =
  tx_hash :: jsstring
  tx_from :: jsstring
  tx_to :: jsstring
  tx_value :: jsstring
  tx_gas :: jsstring
  tx_gasPrice :: jsstring

record state =
  blocks :: "BlockDetail list"
  error :: "jsstring option"
  offset :: int
  currentHeight :: int
  selectedBlock :: "BlockDetail option"
  transactionHash :: jsstring
  transactionResult :: "TransactionDetail option"
  addressBalance :: jsstring
  balanceResult :: "jsstring option"
  balanceError :: "jsstring option"
  isLoading :: bool
  isTauri :: bool

definition limit :: int where
  "limit = 10"

definition init :: state where
  "init = \<lparr>blocks = [], error = None, offset = 0, currentHeight = 0,
     selectedBlock = None, transactionHash = [], transactionResult = None,
     addressBalance = [], balanceResult = None, balanceError = None,
     isLoading = False, isTauri = False\<rparr>"

definition requires_tauri_msg :: jsstring where
  \<open>requires_tauri_msg = js ''Block explorer requires Tauri desktop app. Please run "npm run tauri dev" instead of "npm run dev".''\<close>

definition fetch_failed_msg :: jsstring where
  \<open>fetch_failed_msg = js ''Failed to fetch blockchain data. Please start the Geth node on the <a href="/network" class="text-blue-300 hover:underline">Network page</a>.''\<close>

definition zero_address :: jsstring where
  "zero_address = js ''0x0000000000000000000000000000000000000000''"

text \<open>The placeholder block of the failure branch; \<open>now\<close> is \<open>Date.now()\<close>.\<close>

definition placeholder_block :: "int \<Rightarrow> BlockDetail" where
  "placeholder_block now = \<lparr>number = 0,
     hash = js ''0x0000000000000000000000000000000000000000000000000000000000000000'',
     miner = zero_address,
     timestamp = now div 1000,
     transaction_count = 0,
     transactions = []\<rparr>"

text \<open>
  \<open>fetchBlocks\<close> up to its \<open>await\<close>: the Tauri gate, then the timeout promise and
  the two invocations.
\<close>

definition fetchBlocks_sync :: "state \<Rightarrow> state step" where
  "fetchBlocks_sync s =
     (if \<not> isTauri s then
        Returned (s\<lparr>error := Some requires_tauri_msg, isLoading := False\<rparr>) []
      else
        (let s1 = s\<lparr>isLoading := True, error := None\<rparr> in
         Suspended s1
           [SetTimeout RejectTimeoutCb 10000,
            Invoke ''get_latest_blocks''
              (Some [(''limit'', JNum limit), (''offset'', JNum (offset s1))]),
            Invoke ''get_current_block'' None]))"

text \<open>
  \<open>fetchBlocks\<close> from the moment the race has settled: the rest of the \<open>try\<close>
  block, or the \<open>catch\<close> block, and then \<open>finally\<close>.
\<close>

definition fetchBlocks_cont ::
  "int \<Rightarrow> (BlockDetail list \<times> int) settled \<Rightarrow> state \<Rightarrow> state" where
  "fetchBlocks_cont now r s =
     (let s2 =
        (case r of
           Fulfilled (fetchedBlocks, height) \<Rightarrow>
             s\<lparr>blocks := fetchedBlocks, currentHeight := height\<rparr>
         | Rejected e \<Rightarrow>
             (let s1 = s\<lparr>error := Some fetch_failed_msg\<rparr> in
              if length (blocks s1) = 0
              then s1\<lparr>blocks := [placeholder_block now], currentHeight := 0\<rparr>
              else s1))
      in s2\<lparr>isLoading := False\<rparr>)"

text \<open>One whole call of \<open>fetchBlocks\<close>, with nothing else running in between.\<close>

definition fetchBlocks ::
  "int \<Rightarrow> BlockDetail list reply \<Rightarrow> int reply \<Rightarrow> state \<Rightarrow> state step" where
  "fetchBlocks now r1 r2 s =
     (case fetchBlocks_sync s of
        Returned s' es \<Rightarrow> Returned s' es
      | Suspended s' es \<Rightarrow>
          Returned (fetchBlocks_cont now (race_timeout (promise_all r1 r2)) s') es)"

definition fetchTransaction :: "state \<Rightarrow> state step" where
  "fetchTransaction s =
     (if \<not> truthy (trim (transactionHash s)) then Returned s []
      else if \<not> isTauri s then
        Returned (s\<lparr>balanceError :=
          Some (js ''Transaction lookup requires Tauri desktop app.'')\<rparr>) []
      else
        Returned (s\<lparr>balanceError := None,
          transactionResult := Some \<lparr>tx_hash = transactionHash s,
            tx_from = zero_address,
            tx_to = zero_address,
            tx_value = js ''0'',
            tx_gas = js ''21000'',
            tx_gasPrice = js ''20000000000''\<rparr>\<rparr>) [])"

definition fetchBalance_sync :: "state \<Rightarrow> state step" where
  "fetchBalance_sync s =
     (if \<not> truthy (trim (addressBalance s)) then Returned s []
      else if \<not> isTauri s then
        Returned (s\<lparr>balanceError :=
          Some (js ''Balance check requires Tauri desktop app.'')\<rparr>) []
      else
        Suspended (s\<lparr>balanceError := None\<rparr>)
          [Invoke ''get_account_balance''
             (Some [(''address'', JStr (addressBalance s))])])"

definition fetchBalance_cont :: "jsstring settled \<Rightarrow> state \<Rightarrow> state" where
  "fetchBalance_cont r s =
     (case r of
        Fulfilled balance \<Rightarrow> s\<lparr>balanceResult := Some (balance @ js '' ETH'')\<rparr>
      | Rejected e \<Rightarrow> s\<lparr>balanceError := Some e\<rparr>)"

definition fetchBalance :: "jsstring reply \<Rightarrow> state \<Rightarrow> state step" where
  "fetchBalance r s =
     (case fetchBalance_sync s of
        Returned s' es \<Rightarrow> Returned s' es
      | Suspended s' es \<Rightarrow>
          (case await r of
             None \<Rightarrow> Suspended s' es
           | Some out \<Rightarrow> Returned (fetchBalance_cont out s') es))"

text \<open>
  \<open>nextPage\<close> and \<open>prevPage\<close> call \<open>fetchBlocks()\<close> without awaiting it: they
  return when \<open>fetchBlocks\<close> reaches its \<open>await\<close>.
\<close>

definition nextPage :: "state \<Rightarrow> state step" where
  "nextPage s = fetchBlocks_sync (s\<lparr>offset := round64 (offset s + limit)\<rparr>)"

definition prevPage :: "state \<Rightarrow> state step" where
  "prevPage s = fetchBlocks_sync (s\<lparr>offset := max 0 (round64 (offset s - limit))\<rparr>)"

definition selectBlock :: "BlockDetail \<Rightarrow> state \<Rightarrow> state" where
  "selectBlock block s = s\<lparr>selectedBlock := Some block\<rparr>"

definition closeBlockDetails :: "state \<Rightarrow> state" where
  "closeBlockDetails s = s\<lparr>selectedBlock := None\<rparr>"

text \<open>
  The globals \<open>onMount\<close> looks at: \<open>None\<close> when \<open>typeof window\<close> is
  \<open>'undefined'\<close>, otherwise which of the three properties are defined.
\<close>

record window =
  TAURI :: bool
  TAURI_INTERNALS :: bool
  TAURI_METADATA :: bool

definition detect_tauri :: "window option \<Rightarrow> bool" where
  "detect_tauri w =
     (case w of
        None \<Rightarrow> False
      | Some win \<Rightarrow> TAURI win \<or> TAURI_INTERNALS win \<or> TAURI_METADATA win)"

text \<open>
  The callback given to \<open>onMount\<close>. \<open>h\<close> is the handle \<open>setInterval\<close> returns.
  The third component is the returned cleanup function, as the events it produces when
  the framework runs it at unmount; \<open>None\<close> when the callback returns nothing.
\<close>

definition onMount ::
  "window option \<Rightarrow> nat \<Rightarrow> state \<Rightarrow> state \<times> event list \<times> event list option" where
  "onMount w h s =
     (let s1 = s\<lparr>isTauri := detect_tauri w\<rparr> in
      if isTauri s1 then
        (let r = fetchBlocks_sync s1 in
         (state_of r, events_of r @ [SetInterval FetchBlocksCb 10000 h],
          Some [ClearInterval h]))
      else (s1\<lparr>error := Some requires_tauri_msg\<rparr>, [], None))"

text \<open>
  Everything that can run on the component, from the script and the bindings of the
  markup: the mount callback, a tick of the interval timer, the four buttons, the
  Details button of a row, the close button of the modal, typing into the two inputs,
  and the resumption of a suspended \<open>fetchBlocks\<close> or \<open>fetchBalance\<close>.
\<close>

datatype action =
    Mount "window option" nat
  | TimerTick
  | ClickNext
  | ClickPrevious
  | ClickLookup
  | ClickCheck
  | ClickDetails BlockDetail
  | ClickClose
  | InputTransactionHash jsstring
  | InputAddressBalance jsstring
  | ResumeFetchBlocks int "(BlockDetail list \<times> int) settled"
  | ResumeFetchBalance "jsstring settled"

fun perform :: "action \<Rightarrow> state \<Rightarrow> state \<times> event list" where
  "perform (Mount w h) s = (case onMount w h s of (s', es, c) \<Rightarrow> (s', es))"
| "perform TimerTick s = (let r = fetchBlocks_sync s in (state_of r, events_of r))"
| "perform ClickNext s = (let r = nextPage s in (state_of r, events_of r))"
| "perform ClickPrevious s = (let r = prevPage s in (state_of r, events_of r))"
| "perform ClickLookup s = (let r = fetchTransaction s in (state_of r, events_of r))"
| "perform ClickCheck s = (let r = fetchBalance_sync s in (state_of r, events_of r))"
| "perform (ClickDetails b) s = (selectBlock b s, [])"
| "perform ClickClose s = (closeBlockDetails s, [])"
| "perform (InputTransactionHash t) s = (s\<lparr>transactionHash := t\<rparr>, [])"
| "perform (InputAddressBalance t) s = (s\<lparr>addressBalance := t\<rparr>, [])"
| "perform (ResumeFetchBlocks now r) s = (fetchBlocks_cont now r s, [])"
| "perform (ResumeFetchBalance r) s = (fetchBalance_cont r s, [])"

fun run :: "action list \<Rightarrow> state \<Rightarrow> state \<times> event list" where
  "run [] s = (s, [])"
| "run (a # as) s =
     (case perform a s of (s1, es1) \<Rightarrow>
        (case run as s1 of (s2, es2) \<Rightarrow> (s2, es1 @ es2)))"

section \<open>The all-transactions panel\<close>

record tx_state =
  chainId :: int
  all_transactions :: "json list"
  tx_isLoading :: bool
  tx_error :: "jsstring option"

definition tx_init :: tx_state where
  "tx_init = \<lparr>chainId = 777, all_transactions = [], tx_isLoading = False,
     tx_error = None\<rparr>"

text \<open>
  The script of this panel registers no mount callback: creating the component runs the
  initialisers and nothing else.
\<close>

definition tx_mount :: "tx_state step" where
  "tx_mount = Returned tx_init []"

definition fetchAllTransactions_sync :: "tx_state \<Rightarrow> tx_state step" where
  "fetchAllTransactions_sync s =
     Suspended (s\<lparr>tx_isLoading := True, tx_error := None\<rparr>)
       [Invoke ''get_all_transactions'' None]"

definition fetchAllTransactions_cont ::
  "json list settled \<Rightarrow> tx_state \<Rightarrow> tx_state \<times> event list" where
  "fetchAllTransactions_cont r s =
     (case
        (case r of
           Fulfilled result \<Rightarrow>
             (let s1 = s\<lparr>all_transactions := result\<rparr> in
              (s1, if length (all_transactions s1) = 0
                   then [ToastInfo (js ''No transactions found on the blockchain.'')]
                   else []))
         | Rejected e \<Rightarrow>
             (let msg = js ''Failed to fetch transactions: '' @ e in
              (s\<lparr>tx_error := Some msg\<rparr>,
               [ConsoleError (js ''Failed to fetch all transactions:'') e,
                ToastError msg])))
      of (s2, es) \<Rightarrow> (s2\<lparr>tx_isLoading := False\<rparr>, es))"

definition fetchAllTransactions :: "json list reply \<Rightarrow> tx_state \<Rightarrow> tx_state step" where
  "fetchAllTransactions r s =
     (case fetchAllTransactions_sync s of
        Returned s' es \<Rightarrow> Returned s' es
      | Suspended s' es \<Rightarrow>
          (case await r of
             None \<Rightarrow> Suspended s' es
           | Some out \<Rightarrow>
               (case fetchAllTransactions_cont out s' of
                  (s'', es') \<Rightarrow> Returned s'' (es @ es'))))"

section \<open>Specification predicates\<close>

text \<open>
  The invariant of the pagination counter after at most \<open>k\<close> actions.
\<close>

definition page_inv :: "nat \<Rightarrow> state \<Rightarrow> bool" where
  "page_inv k s \<longleftrightarrow> 0 \<le> offset s \<and> 10 dvd offset s \<and> offset s \<le> 10 * int k"


section \<open>Helper lemmas\<close>

lemma trim_Nil_iff: "trim t = [] \<longleftrightarrow> (\<forall>c\<in>set t. is_ws c)"
proof
  assume "trim t = []"
  then have all: "\<forall>c\<in>set (dropWhile is_ws t). is_ws c"
    by (simp add: trim_def dropWhile_eq_Nil_conv)
  have "dropWhile is_ws t = []"
  proof (rule ccontr)
    assume ne: "dropWhile is_ws t \<noteq> []"
    then have "\<not> is_ws (hd (dropWhile is_ws t))" by (rule hd_dropWhile)
    moreover from ne have "hd (dropWhile is_ws t) \<in> set (dropWhile is_ws t)" by simp
    ultimately show False using all by blast
  qed
  then show "\<forall>c\<in>set t. is_ws c" by (simp add: dropWhile_eq_Nil_conv)
next
  assume "\<forall>c\<in>set t. is_ws c"
  then have e: "dropWhile is_ws t = []" by (simp add: dropWhile_eq_Nil_conv)
  show "trim t = []" unfolding trim_def e by simp
qed

lemma fetchBlocks_sync_tauri:
  "isTauri s \<Longrightarrow> fetchBlocks_sync s =
     Suspended (s\<lparr>isLoading := True, error := None\<rparr>)
       [SetTimeout RejectTimeoutCb 10000,
        Invoke ''get_latest_blocks'' (Some [(''limit'', JNum 10), (''offset'', JNum (offset s))]),
        Invoke ''get_current_block'' None]"
  by (simp add: fetchBlocks_sync_def limit_def)

lemma fetchBlocks_sync_web:
  "\<not> isTauri s \<Longrightarrow> fetchBlocks_sync s =
     Returned (s\<lparr>error := Some requires_tauri_msg, isLoading := False\<rparr>) []"
  by (simp add: fetchBlocks_sync_def)

lemma offset_fetchBlocks_sync [simp]: "offset (state_of (fetchBlocks_sync s)) = offset s"
  by (simp add: fetchBlocks_sync_def Let_def)

lemma isTauri_fetchBlocks_sync [simp]: "isTauri (state_of (fetchBlocks_sync s)) = isTauri s"
  by (simp add: fetchBlocks_sync_def Let_def)

lemma offset_fetchBlocks_cont [simp]: "offset (fetchBlocks_cont now r s) = offset s"
  by (simp add: fetchBlocks_cont_def Let_def split: settled.split prod.split)

lemma isTauri_fetchBlocks_cont [simp]: "isTauri (fetchBlocks_cont now r s) = isTauri s"
  by (simp add: fetchBlocks_cont_def Let_def split: settled.split prod.split)

lemma offset_fetchBalance_cont [simp]: "offset (fetchBalance_cont r s) = offset s"
  by (simp add: fetchBalance_cont_def split: settled.split)

lemma isTauri_fetchBalance_cont [simp]: "isTauri (fetchBalance_cont r s) = isTauri s"
  by (simp add: fetchBalance_cont_def split: settled.split)

lemma offset_fetchTransaction [simp]: "offset (state_of (fetchTransaction s)) = offset s"
  by (simp add: fetchTransaction_def)

lemma isTauri_fetchTransaction [simp]: "isTauri (state_of (fetchTransaction s)) = isTauri s"
  by (simp add: fetchTransaction_def)

lemma offset_fetchBalance_sync [simp]: "offset (state_of (fetchBalance_sync s)) = offset s"
  by (simp add: fetchBalance_sync_def)

lemma isTauri_fetchBalance_sync [simp]: "isTauri (state_of (fetchBalance_sync s)) = isTauri s"
  by (simp add: fetchBalance_sync_def)

lemma offset_onMount [simp]: "offset (fst (onMount w h s)) = offset s"
  by (simp add: onMount_def Let_def)


section \<open>Double-precision integers\<close>

declare bit_length.simps [simp del]

lemma bit_length_le: "n < 2 ^ k \<Longrightarrow> bit_length n \<le> k"
proof (induction k arbitrary: n)
  case 0
  then show ?case by (simp add: bit_length.simps)
next
  case (Suc k)
  show ?case
  proof (cases "n = 0")
    case True
    then show ?thesis by (simp add: bit_length.simps)
  next
    case False
    from Suc.prems have "n div 2 < 2 ^ k" by simp
    then have "bit_length (n div 2) \<le> k" by (rule Suc.IH)
    with False show ?thesis by (simp add: bit_length.simps [of n])
  qed
qed

lemma bit_length_gt: "2 ^ k \<le> n \<Longrightarrow> k < bit_length n"
proof (induction k arbitrary: n)
  case 0
  then show ?case by (simp add: bit_length.simps [of n])
next
  case (Suc k)
  have "(0::nat) < 2 ^ Suc k" by simp
  with Suc.prems have ne: "n \<noteq> 0" by linarith
  from Suc.prems have "2 ^ k \<le> n div 2" by simp
  then have "k < bit_length (n div 2)" by (rule Suc.IH)
  with ne show ?case by (simp add: bit_length.simps [of n])
qed

lemma round64_exact:
  assumes "2 ^ (bit_length (nat \<bar>n\<bar>) - 53) dvd nat \<bar>n\<bar>"
  shows "round64 n = n"
proof -
  let ?m = "nat \<bar>n\<bar>"
  let ?u = "(2::nat) ^ (bit_length ?m - 53)"
  from assms have r: "?m mod ?u = 0" by (simp add: mod_eq_0_iff_dvd)
  from assms have q: "?m div ?u * ?u = ?m" by simp
  have "round64 n = sgn n * int (?m div ?u * ?u)"
    by (simp add: round64_def Let_def r)
  also have "\<dots> = sgn n * int ?m" by (simp only: q)
  also have "\<dots> = n" by (simp add: sgn_if)
  finally show ?thesis .
qed

lemma round64_small: "\<bar>n\<bar> < 2 ^ 53 \<Longrightarrow> round64 n = n"
proof (rule round64_exact)
  assume "\<bar>n\<bar> < 2 ^ 53"
  then have "nat \<bar>n\<bar> < 2 ^ 53" by simp
  then have "bit_length (nat \<bar>n\<bar>) \<le> 53" by (rule bit_length_le)
  then show "2 ^ (bit_length (nat \<bar>n\<bar>) - 53) dvd nat \<bar>n\<bar>" by simp
qed

lemma round64_even:
  assumes ev: "even n" and le: "\<bar>n\<bar> \<le> 2 ^ 54"
  shows "round64 n = n"
proof (rule round64_exact)
  let ?m = "nat \<bar>n\<bar>"
  from ev have evm: "even ?m" by (simp add: even_nat_iff)
  show "2 ^ (bit_length ?m - 53) dvd ?m"
  proof (cases "?m < 2 ^ 54")
    case True
    then have "bit_length ?m \<le> 54" by (rule bit_length_le)
    then have "bit_length ?m - 53 = 0 \<or> bit_length ?m - 53 = 1" by arith
    with evm show ?thesis by auto
  next
    case False
    with le have m: "?m = 2 ^ 54" by simp
    have "?m < 2 ^ 55" by (simp add: m)
    then have "bit_length ?m \<le> 55" by (rule bit_length_le)
    then have "bit_length ?m - 53 \<le> 54" by arith
    then have "(2::nat) ^ (bit_length ?m - 53) dvd 2 ^ 54" by (rule le_imp_power_dvd)
    then show ?thesis by (simp only: m)
  qed
qed

lemma round64_nonneg: "0 \<le> n \<Longrightarrow> 0 \<le> round64 n"
  by (simp add: round64_def Let_def sgn_if)

lemma bit_length_eq: "2 ^ k \<le> n \<Longrightarrow> n < 2 ^ Suc k \<Longrightarrow> bit_length n = Suc k"
  using bit_length_le [of n "Suc k"] bit_length_gt [of k n] by simp

lemma round64_tie: "round64 18014398509481990 = 18014398509481992"
proof -
  have "bit_length 18014398509481990 = Suc 54"
    by (rule bit_length_eq) simp_all
  then show ?thesis by (simp add: round64_def Let_def)
qed

section \<open>Pagination\<close>

lemma offset_nextPage: "offset (state_of (nextPage s)) = round64 (offset s + 10)"
  by (simp add: nextPage_def limit_def)

lemma offset_prevPage: "offset (state_of (prevPage s)) = max 0 (round64 (offset s - 10))"
  by (simp add: prevPage_def limit_def)

lemma fst_perform_Mount: "fst (perform (Mount w h) s) = fst (onMount w h s)"
  by (cases "onMount w h s") simp

lemma offset_perform_other:
  "a \<noteq> ClickNext \<Longrightarrow> a \<noteq> ClickPrevious \<Longrightarrow> offset (fst (perform a s)) = offset s"
  by (cases a)
    (simp_all only: fst_perform_Mount offset_onMount,
     simp_all add: Let_def selectBlock_def closeBlockDetails_def)

lemma fst_run_Cons: "fst (run (a # as) s) = fst (run as (fst (perform a s)))"
  by (simp split: prod.split)

lemma fst_run_single: "fst (run [a] s) = fst (perform a s)"
  by (simp split: prod.split)

lemma fst_run_append: "fst (run (as @ bs) s) = fst (run bs (fst (run as s)))"
proof (induction as arbitrary: s)
  case Nil
  show ?case by simp
next
  case (Cons a as)
  show ?case by (simp only: append_Cons fst_run_Cons Cons.IH)
qed

lemma page_inv_perform:
  assumes inv: "page_inv k s" and k: "k < 1801439850948198"
  shows "page_inv (Suc k) (fst (perform a s))"
proof -
  from inv have nn: "0 \<le> offset s" and dv: "10 dvd offset s" and le: "offset s \<le> 10 * int k"
    by (simp_all add: page_inv_def)
  from dv have ev: "even (offset s)" by presburger
  have p: "(2::int) ^ 54 = 18014398509481984" by simp
  from k have ki: "int k < 1801439850948198" by simp
  consider "a = ClickNext" | "a = ClickPrevious" | "a \<noteq> ClickNext" "a \<noteq> ClickPrevious"
    by blast
  then show ?thesis
  proof cases
    case 1
    from nn le ki have "\<bar>offset s + 10\<bar> \<le> 2 ^ 54" unfolding p by arith
    with ev have "round64 (offset s + 10) = offset s + 10" by (intro round64_even) simp_all
    with 1 have "offset (fst (perform a s)) = offset s + 10"
      by (simp add: Let_def offset_nextPage)
    with nn dv le show ?thesis by (simp add: page_inv_def)
  next
    case 2
    from nn le ki have "\<bar>offset s - 10\<bar> \<le> 2 ^ 54" unfolding p by arith
    with ev have "round64 (offset s - 10) = offset s - 10" by (intro round64_even) simp_all
    with 2 have "offset (fst (perform a s)) = max 0 (offset s - 10)"
      by (simp add: Let_def offset_prevPage)
    with nn dv le show ?thesis by (simp add: page_inv_def max_def)
  next
    case 3
    then have "offset (fst (perform a s)) = offset s" by (rule offset_perform_other)
    with nn dv le show ?thesis by (simp add: page_inv_def)
  qed
qed

lemma page_inv_run:
  "page_inv k s \<Longrightarrow> k + length as \<le> 1801439850948198 \<Longrightarrow>
     page_inv (k + length as) (fst (run as s))"
proof (induction as arbitrary: k s)
  case Nil
  then show ?case by simp
next
  case (Cons a as)
  from Cons.prems have "k < 1801439850948198" by simp
  with Cons.prems(1) have "page_inv (Suc k) (fst (perform a s))" by (rule page_inv_perform)
  moreover from Cons.prems have "Suc k + length as \<le> 1801439850948198" by simp
  ultimately have "page_inv (Suc k + length as) (fst (run as (fst (perform a s))))"
    by (rule Cons.IH)
  then show ?case by (simp only: fst_run_Cons length_Cons add_Suc_shift add_Suc)
qed

lemma nonneg_perform: "0 \<le> offset s \<Longrightarrow> 0 \<le> offset (fst (perform a s))"
proof -
  assume nn: "0 \<le> offset s"
  consider "a = ClickNext" | "a = ClickPrevious" | "a \<noteq> ClickNext" "a \<noteq> ClickPrevious"
    by blast
  then show ?thesis
  proof cases
    case 1
    from nn have "0 \<le> round64 (offset s + 10)" by (intro round64_nonneg) simp
    with 1 show ?thesis by (simp add: Let_def offset_nextPage)
  next
    case 2
    then show ?thesis by (simp add: Let_def offset_prevPage)
  next
    case 3
    then have "offset (fst (perform a s)) = offset s" by (rule offset_perform_other)
    with nn show ?thesis by simp
  qed
qed

lemma nonneg_run: "0 \<le> offset s \<Longrightarrow> 0 \<le> offset (fst (run as s))"
proof (induction as arbitrary: s)
  case Nil
  then show ?case by simp
next
  case (Cons a as)
  from Cons.prems have "0 \<le> offset (fst (perform a s))" by (rule nonneg_perform)
  then have "0 \<le> offset (fst (run as (fst (perform a s))))" by (rule Cons.IH)
  then show ?case by (simp only: fst_run_Cons)
qed

lemma run_next_offset:
  "0 \<le> offset s \<Longrightarrow> even (offset s) \<Longrightarrow> offset s + 10 * int n \<le> 2 ^ 54 \<Longrightarrow>
     offset (fst (run (replicate n ClickNext) s)) = offset s + 10 * int n"
proof (induction n arbitrary: s)
  case 0
  show ?case by simp
next
  case (Suc n)
  let ?s = "fst (perform ClickNext s)"
  from Suc.prems have "\<bar>offset s + 10\<bar> \<le> 2 ^ 54" by simp
  with Suc.prems(2) have "round64 (offset s + 10) = offset s + 10"
    by (intro round64_even) simp_all
  then have o: "offset ?s = offset s + 10" by (simp add: Let_def offset_nextPage)
  with Suc.prems have "0 \<le> offset ?s" "even (offset ?s)" "offset ?s + 10 * int n \<le> 2 ^ 54"
    by simp_all
  then have "offset (fst (run (replicate n ClickNext) ?s)) = offset ?s + 10 * int n"
    by (rule Suc.IH)
  with o show ?case by (simp only: replicate_Suc fst_run_Cons) simp
qed

lemma replicate_snoc: "replicate (Suc n) x = replicate n x @ [x]"
  by (simp add: replicate_append_same)

text \<open>
  Claim C8 says that the offset is a multiple of 10 after every finite sequence of
  \<open>nextPage\<close> and \<open>prevPage\<close> calls. After 1801439850948199 calls of \<open>nextPage\<close>
  from the initial state the exact sum 18014398509481990 lies above \<open>2^54\<close>, where
  neighbouring binary64 values are 4 apart, and the stored offset is 18014398509481992.
\<close>

theorem offset_invariant_counterexample:
  "offset (fst (run (replicate 1801439850948199 ClickNext) init)) = 18014398509481992
   \<and> \<not> 10 dvd offset (fst (run (replicate 1801439850948199 ClickNext) init))"
proof -
  let ?s = "fst (run (replicate 1801439850948198 ClickNext) init)"
  have n: "(1801439850948199::nat) = Suc 1801439850948198" by simp
  have "offset ?s = offset init + 10 * int 1801439850948198"
    by (rule run_next_offset) (simp_all add: init_def)
  then have o: "offset ?s = 18014398509481980" by (simp add: init_def)
  have "fst (run (replicate 1801439850948199 ClickNext) init) = fst (perform ClickNext ?s)"
    by (simp only: n replicate_snoc fst_run_append fst_run_single)
  then have "offset (fst (run (replicate 1801439850948199 ClickNext) init))
      = round64 (offset ?s + 10)"
    by (simp add: Let_def offset_nextPage)
  also have "\<dots> = 18014398509481992" by (simp only: o) (simp add: round64_tie)
  finally have r: "offset (fst (run (replicate 1801439850948199 ClickNext) init))
      = 18014398509481992" .
  show ?thesis by (simp only: r) simp
qed

text \<open>
  Claim C8, amended. Starting from the initial offset 0, after every sequence of at most
  1801439850948198 actions on the component, and so of \<open>nextPage\<close> and \<open>prevPage\<close>
  calls (the offset then stays within \<open>2^54\<close>, where the arithmetic on multiples of 10
  is exact), the offset is a non-negative multiple of 10; after every finite sequence the
  offset is non-negative; and \<open>prevPage\<close> leaves a non-negative offset whatever the
  offset was before.
\<close>

theorem offset_invariant:
  "(length as \<le> 1801439850948198 \<longrightarrow>
      0 \<le> offset (fst (run as init)) \<and> 10 dvd offset (fst (run as init)))
   \<and> 0 \<le> offset (fst (run as init))
   \<and> 0 \<le> offset (state_of (prevPage s))"
proof -
  have i: "page_inv 0 init" by (simp add: page_inv_def init_def)
  have A: "length as \<le> 1801439850948198 \<longrightarrow>
      0 \<le> offset (fst (run as init)) \<and> 10 dvd offset (fst (run as init))"
  proof
    assume "length as \<le> 1801439850948198"
    then have "0 + length as \<le> 1801439850948198" by simp
    with i have "page_inv (0 + length as) (fst (run as init))" by (rule page_inv_run)
    then show "0 \<le> offset (fst (run as init)) \<and> 10 dvd offset (fst (run as init))"
      by (simp add: page_inv_def)
  qed
  have B: "0 \<le> offset (fst (run as init))"
    by (rule nonneg_run) (simp add: init_def)
  have C: "0 \<le> offset (state_of (prevPage s))"
    by (simp add: offset_prevPage)
  show ?thesis by (intro conjI A B C)
qed

theorem offset_invariant_witness:
  "0 \<le> offset (fst (run [ClickNext, ClickPrevious, ClickPrevious, ClickNext] init))
   \<and> 10 dvd offset (fst (run [ClickNext, ClickPrevious, ClickPrevious, ClickNext] init))
   \<and> 0 \<le> offset (state_of (prevPage init))"
proof -
  let ?as = "[ClickNext, ClickPrevious, ClickPrevious, ClickNext]"
  have h: "length ?as \<le> 1801439850948198" by simp
  note th = offset_invariant [of ?as init]
  note a = th [THEN conjunct1, THEN mp, OF h]
  note c = th [THEN conjunct2, THEN conjunct2]
  from a c show ?thesis by (intro conjI) (elim conjE, assumption)+
qed

section \<open>Blank input\<close>

text \<open>
  Claim C9. When the entered string is empty or consists of whitespace only,
  \<open>fetchTransaction\<close> and \<open>fetchBalance\<close> return at once: no event is produced (so
  no remote call) and the component state is the one they were called in.
\<close>

theorem blank_input_guard:
  "((\<forall>c\<in>set (transactionHash s). is_ws c) \<longrightarrow> fetchTransaction s = Returned s [])
   \<and> ((\<forall>c\<in>set (addressBalance s). is_ws c) \<longrightarrow>
        fetchBalance_sync s = Returned s [] \<and> fetchBalance r s = Returned s [])"
  by (simp add: fetchTransaction_def fetchBalance_sync_def fetchBalance_def truthy_def
      trim_Nil_iff)

theorem blank_input_guard_witness:
  "fetchTransaction (init\<lparr>transactionHash := js '' '', addressBalance := [0x9, 0x3000],
      isTauri := True\<rparr>)
     = Returned (init\<lparr>transactionHash := js '' '', addressBalance := [0x9, 0x3000],
         isTauri := True\<rparr>) []
   \<and> fetchBalance (Value (js ''1.5''))
       (init\<lparr>transactionHash := js '' '', addressBalance := [0x9, 0x3000], isTauri := True\<rparr>)
     = Returned (init\<lparr>transactionHash := js '' '', addressBalance := [0x9, 0x3000],
         isTauri := True\<rparr>) []"
proof -
  let ?s = "init\<lparr>transactionHash := js '' '', addressBalance := [0x9, 0x3000],
      isTauri := True\<rparr>"
  have h1: "\<forall>c\<in>set (transactionHash ?s). is_ws c"
    by (simp add: js_def is_ws_def)
  have h2: "\<forall>c\<in>set (addressBalance ?s). is_ws c"
    by (simp add: is_ws_def)
  from blank_input_guard [of ?s "Value (js ''1.5'')"] h1 h2 show ?thesis
    by blast
qed

section \<open>Transaction lookup\<close>

text \<open>
  Claim C3. Inside Tauri, for an entered hash whose trimmed form is not empty,
  \<open>fetchTransaction\<close> stores a record with the entered hash and the fixed placeholder
  fields, clears \<open>balanceError\<close>, and produces no event: no backend invocation.
\<close>

theorem fetchTransaction_placeholder:
  "trim (transactionHash s) \<noteq> [] \<Longrightarrow> isTauri s \<Longrightarrow>
     fetchTransaction s =
       Returned (s\<lparr>balanceError := None,
         transactionResult := Some \<lparr>tx_hash = transactionHash s,
           tx_from = js ''0x0000000000000000000000000000000000000000'',
           tx_to = js ''0x0000000000000000000000000000000000000000'',
           tx_value = js ''0'',
           tx_gas = js ''21000'',
           tx_gasPrice = js ''20000000000''\<rparr>\<rparr>) []
     \<and> filter is_invoke (events_of (fetchTransaction s)) = []"
  by (simp add: fetchTransaction_def truthy_def zero_address_def)

theorem fetchTransaction_placeholder_witness:
  "transactionResult (state_of (fetchTransaction
      (init\<lparr>transactionHash := js '' 0xabc'', isTauri := True\<rparr>)))
     = Some \<lparr>tx_hash = js '' 0xabc'',
           tx_from = js ''0x0000000000000000000000000000000000000000'',
           tx_to = js ''0x0000000000000000000000000000000000000000'',
           tx_value = js ''0'',
           tx_gas = js ''21000'',
           tx_gasPrice = js ''20000000000''\<rparr>
   \<and> events_of (fetchTransaction (init\<lparr>transactionHash := js '' 0xabc'', isTauri := True\<rparr>))
     = []"
proof -
  let ?s = "init\<lparr>transactionHash := js '' 0xabc'', isTauri := True\<rparr>"
  have h1: "trim (transactionHash ?s) \<noteq> []"
    by (simp add: trim_def js_def is_ws_def)
  have h2: "isTauri ?s" by simp
  from fetchTransaction_placeholder [OF h1 h2] show ?thesis by simp
qed

section \<open>The Tauri gate\<close>

lemma isTauri_onMount: "isTauri (fst (onMount w h s)) = detect_tauri w"
  by (simp add: onMount_def Let_def)

lemma isTauri_perform:
  "\<forall>w h. a \<noteq> Mount w h \<Longrightarrow> isTauri (fst (perform a s)) = isTauri s"
  by (cases a) (simp_all add: Let_def nextPage_def prevPage_def selectBlock_def
      closeBlockDetails_def)

lemma web_fetchTransaction:
  "\<not> isTauri s \<Longrightarrow> trim (transactionHash s) \<noteq> [] \<Longrightarrow>
     fetchTransaction s = Returned (s\<lparr>balanceError :=
       Some (js ''Transaction lookup requires Tauri desktop app.'')\<rparr>) []"
  by (simp add: fetchTransaction_def truthy_def)

lemma web_fetchBalance:
  "\<not> isTauri s \<Longrightarrow> trim (addressBalance s) \<noteq> [] \<Longrightarrow>
     fetchBalance r s = Returned (s\<lparr>balanceError :=
       Some (js ''Balance check requires Tauri desktop app.'')\<rparr>) []"
  by (simp add: fetchBalance_def fetchBalance_sync_def truthy_def)

lemma web_no_events:
  "\<not> isTauri s \<Longrightarrow>
     events_of (fetchBlocks now r1 r2 s) = [] \<and> events_of (fetchTransaction s) = []
     \<and> events_of (fetchBalance r s) = []"
  by (simp add: fetchBlocks_def fetchBlocks_sync_web fetchTransaction_def
      fetchBalance_def fetchBalance_sync_def)

text \<open>
  Claim C6 says that with \<open>isTauri\<close> false each of the three functions sets a fixed
  error message. In the initial state (not in Tauri, both inputs empty) the blank-input
  guard of \<open>fetchTransaction\<close> and \<open>fetchBalance\<close> comes first: they return with
  the state unchanged and no message set.
\<close>

theorem tauri_gate_counterexample:
  "\<not> isTauri init \<and> fetchTransaction init = Returned init []
   \<and> fetchBalance_sync init = Returned init []
   \<and> balanceError init = None \<and> error init = None"
  by (simp add: fetchTransaction_def fetchBalance_sync_def truthy_def trim_def init_def)

text \<open>
  Claim C6, amended. The mount callback sets \<open>isTauri\<close> from the presence of the
  three window globals, and no other action changes it. When \<open>isTauri\<close> is false,
  \<open>fetchBlocks\<close> returns after setting its fixed message; \<open>fetchTransaction\<close> and
  \<open>fetchBalance\<close>, on an input that is not blank, return after setting their fixed
  message in \<open>balanceError\<close>, and on a blank input return with the state unchanged;
  and none of them produces an event, so none issues a remote call.
\<close>

theorem tauri_gate:
  "isTauri (fst (onMount w h s))
     = (\<exists>win. w = Some win \<and> (TAURI win \<or> TAURI_INTERNALS win \<or> TAURI_METADATA win))
   \<and> ((\<forall>w h. a \<noteq> Mount w h) \<longrightarrow> isTauri (fst (perform a s)) = isTauri s)
   \<and> (\<not> isTauri s \<longrightarrow>
        fetchBlocks now r1 r2 s
          = Returned (s\<lparr>error := Some requires_tauri_msg, isLoading := False\<rparr>) []
        \<and> (trim (transactionHash s) \<noteq> [] \<longrightarrow>
             fetchTransaction s = Returned (s\<lparr>balanceError :=
               Some (js ''Transaction lookup requires Tauri desktop app.'')\<rparr>) [])
        \<and> (trim (addressBalance s) \<noteq> [] \<longrightarrow>
             fetchBalance r s = Returned (s\<lparr>balanceError :=
               Some (js ''Balance check requires Tauri desktop app.'')\<rparr>) [])
        \<and> ((\<forall>c\<in>set (transactionHash s). is_ws c) \<longrightarrow> fetchTransaction s = Returned s [])
        \<and> ((\<forall>c\<in>set (addressBalance s). is_ws c) \<longrightarrow> fetchBalance r s = Returned s [])
        \<and> events_of (fetchTransaction s) = [] \<and> events_of (fetchBalance r s) = [])"
proof -
  have "isTauri (fst (onMount w h s))
     = (\<exists>win. w = Some win \<and> (TAURI win \<or> TAURI_INTERNALS win \<or> TAURI_METADATA win))"
    by (cases w) (simp_all add: isTauri_onMount detect_tauri_def)
  moreover have "(\<forall>w h. a \<noteq> Mount w h) \<longrightarrow> isTauri (fst (perform a s)) = isTauri s"
    using isTauri_perform by blast
  moreover have "\<not> isTauri s \<Longrightarrow> fetchBlocks now r1 r2 s
          = Returned (s\<lparr>error := Some requires_tauri_msg, isLoading := False\<rparr>) []"
    by (simp add: fetchBlocks_def fetchBlocks_sync_web)
  moreover have "(\<forall>c\<in>set (transactionHash s). is_ws c) \<longrightarrow> fetchTransaction s = Returned s []"
    by (simp add: fetchTransaction_def truthy_def trim_Nil_iff)
  moreover have "(\<forall>c\<in>set (addressBalance s). is_ws c) \<longrightarrow> fetchBalance r s = Returned s []"
    by (simp add: fetchBalance_def fetchBalance_sync_def truthy_def trim_Nil_iff)
  ultimately show ?thesis
    using web_fetchTransaction [of s] web_fetchBalance [of s r] web_no_events [of s now r1 r2 r]
    by blast
qed

theorem tauri_gate_witness:
  "isTauri (fst (onMount (Some \<lparr>TAURI = False, TAURI_INTERNALS = True, TAURI_METADATA = False\<rparr>)
       1 init))
   \<and> isTauri (fst (perform ClickNext (init\<lparr>transactionHash := js ''0xabc'',
         addressBalance := js ''0xdef''\<rparr>))) = False
   \<and> fetchBlocks 0 (Value []) (Value 5) (init\<lparr>transactionHash := js ''0xabc'',
         addressBalance := js ''0xdef''\<rparr>)
       = Returned (init\<lparr>transactionHash := js ''0xabc'', addressBalance := js ''0xdef'',
           error := Some requires_tauri_msg\<rparr>) []
   \<and> fetchTransaction (init\<lparr>transactionHash := js ''0xabc'', addressBalance := js ''0xdef''\<rparr>)
       = Returned (init\<lparr>transactionHash := js ''0xabc'', addressBalance := js ''0xdef'',
           balanceError := Some (js ''Transaction lookup requires Tauri desktop app.'')\<rparr>) []
   \<and> fetchBalance (Value (js ''1''))
         (init\<lparr>transactionHash := js ''0xabc'', addressBalance := js ''0xdef''\<rparr>)
       = Returned (init\<lparr>transactionHash := js ''0xabc'', addressBalance := js ''0xdef'',
           balanceError := Some (js ''Balance check requires Tauri desktop app.'')\<rparr>) []
   \<and> fetchTransaction init = Returned init []
   \<and> fetchBalance (Value (js ''1'')) init = Returned init []"
proof -
  let ?s = "init\<lparr>transactionHash := js ''0xabc'', addressBalance := js ''0xdef''\<rparr>"
  let ?w = "Some \<lparr>TAURI = False, TAURI_INTERNALS = True, TAURI_METADATA = False\<rparr>"
  have h0: "\<forall>w h. ClickNext \<noteq> Mount w h" by simp
  have h1: "\<not> isTauri ?s" by (simp add: init_def)
  have h2: "trim (transactionHash ?s) \<noteq> []" by (simp add: trim_def js_def is_ws_def)
  have h3: "trim (addressBalance ?s) \<noteq> []" by (simp add: trim_def js_def is_ws_def)
  have a: "isTauri (fst (onMount ?w 1 init))"
    using tauri_gate [of ?w 1 init ClickNext 0 "Value []" "Value 5" "Value (js ''1'')"]
    by simp
  have b: "isTauri (fst (perform ClickNext ?s)) = isTauri ?s"
    using tauri_gate [of ?w 1 ?s ClickNext 0 "Value []" "Value 5" "Value (js ''1'')"] h0
    by blast
  have c: "fetchBlocks 0 (Value []) (Value 5) ?s
          = Returned (?s\<lparr>error := Some requires_tauri_msg, isLoading := False\<rparr>) []
        \<and> fetchTransaction ?s = Returned (?s\<lparr>balanceError :=
               Some (js ''Transaction lookup requires Tauri desktop app.'')\<rparr>) []
        \<and> fetchBalance (Value (js ''1'')) ?s = Returned (?s\<lparr>balanceError :=
               Some (js ''Balance check requires Tauri desktop app.'')\<rparr>) []"
    using tauri_gate [of ?w 1 ?s ClickNext 0 "Value []" "Value 5" "Value (js ''1'')"] h1 h2 h3
    by blast
  have h4: "\<not> isTauri init" by (simp add: init_def)
  have h5: "\<forall>c\<in>set (transactionHash init). is_ws c" by (simp add: init_def)
  have h6: "\<forall>c\<in>set (addressBalance init). is_ws c" by (simp add: init_def)
  have d: "fetchTransaction init = Returned init []
      \<and> fetchBalance (Value (js ''1'')) init = Returned init []"
    using tauri_gate [of ?w 1 init ClickNext 0 "Value []" "Value 5" "Value (js ''1'')"] h4 h5 h6
    by blast
  from a b c d h1 show ?thesis by (simp add: init_def)
qed

section \<open>Polling\<close>

text \<open>
  Claim C7. Mounted inside Tauri, the component starts \<open>fetchBlocks\<close> (the timeout
  promise and the two invocations), then installs an interval timer with callback
  \<open>fetchBlocks\<close> and period 10000 ms, and returns a cleanup that clears that timer;
  a tick of the timer runs \<open>fetchBlocks\<close> again. Mounted outside Tauri, it sets the
  error message, produces no event (no timer, no fetch) and returns no cleanup.
\<close>

theorem polling_timer:
  "(detect_tauri w \<longrightarrow>
      onMount w h s =
        (s\<lparr>isTauri := True, isLoading := True, error := None\<rparr>,
         [SetTimeout RejectTimeoutCb 10000,
          Invoke ''get_latest_blocks''
            (Some [(''limit'', JNum 10), (''offset'', JNum (offset s))]),
          Invoke ''get_current_block'' None,
          SetInterval FetchBlocksCb 10000 h],
         Some [ClearInterval h]))
   \<and> (\<not> detect_tauri w \<longrightarrow>
        onMount w h s = (s\<lparr>isTauri := False, error := Some requires_tauri_msg\<rparr>, [], None))
   \<and> perform TimerTick s = (state_of (fetchBlocks_sync s), events_of (fetchBlocks_sync s))"
  by (simp add: onMount_def Let_def fetchBlocks_sync_def limit_def)

theorem polling_timer_witness:
  "onMount (Some \<lparr>TAURI = True, TAURI_INTERNALS = False, TAURI_METADATA = False\<rparr>) 3 init =
        (init\<lparr>isTauri := True, isLoading := True\<rparr>,
         [SetTimeout RejectTimeoutCb 10000,
          Invoke ''get_latest_blocks'' (Some [(''limit'', JNum 10), (''offset'', JNum 0)]),
          Invoke ''get_current_block'' None,
          SetInterval FetchBlocksCb 10000 3],
         Some [ClearInterval 3])
   \<and> onMount None 3 init = (init\<lparr>error := Some requires_tauri_msg\<rparr>, [], None)"
proof -
  let ?w = "Some \<lparr>TAURI = True, TAURI_INTERNALS = False, TAURI_METADATA = False\<rparr>"
  have h1: "detect_tauri ?w" by (simp add: detect_tauri_def)
  have h2: "\<not> detect_tauri None" by (simp add: detect_tauri_def)
  from polling_timer [of ?w 3 init] h1
  have a: "onMount ?w 3 init =
        (init\<lparr>isTauri := True, isLoading := True, error := None\<rparr>,
         [SetTimeout RejectTimeoutCb 10000,
          Invoke ''get_latest_blocks''
            (Some [(''limit'', JNum 10), (''offset'', JNum (offset init))]),
          Invoke ''get_current_block'' None,
          SetInterval FetchBlocksCb 10000 3],
         Some [ClearInterval 3])"
    by blast
  from polling_timer [of None 3 init] h2
  have b: "onMount None 3 init
      = (init\<lparr>isTauri := False, error := Some requires_tauri_msg\<rparr>, [], None)"
    by blast
  from a b show ?thesis by (simp add: init_def)
qed

section \<open>Pagination: what the buttons do\<close>

lemma latest_blocks_args_sync:
  "Invoke ''get_latest_blocks'' args \<in> set (events_of (fetchBlocks_sync s)) \<Longrightarrow>
     args = Some [(''limit'', JNum 10), (''offset'', JNum (offset s))]"
  by (simp add: fetchBlocks_sync_def Let_def limit_def split: if_splits)

lemma latest_blocks_args_perform:
  "Invoke ''get_latest_blocks'' args \<in> set (snd (perform a s)) \<Longrightarrow>
     args = Some [(''limit'', JNum 10), (''offset'', JNum (offset (fst (perform a s))))]"
proof (cases a)
  case (Mount w h)
  assume "Invoke ''get_latest_blocks'' args \<in> set (snd (perform a s))"
  with Mount show ?thesis
    by (auto simp add: onMount_def Let_def split: if_splits dest: latest_blocks_args_sync)
next
  case TimerTick
  assume "Invoke ''get_latest_blocks'' args \<in> set (snd (perform a s))"
  with TimerTick show ?thesis
    by (auto simp add: Let_def dest: latest_blocks_args_sync)
next
  case ClickNext
  assume "Invoke ''get_latest_blocks'' args \<in> set (snd (perform a s))"
  with ClickNext show ?thesis
    by (auto simp add: Let_def nextPage_def dest: latest_blocks_args_sync)
next
  case ClickPrevious
  assume "Invoke ''get_latest_blocks'' args \<in> set (snd (perform a s))"
  with ClickPrevious show ?thesis
    by (auto simp add: Let_def prevPage_def dest: latest_blocks_args_sync)
next
  case ClickLookup
  assume "Invoke ''get_latest_blocks'' args \<in> set (snd (perform a s))"
  with ClickLookup show ?thesis
    by (simp add: Let_def fetchTransaction_def split: if_splits)
next
  case ClickCheck
  assume "Invoke ''get_latest_blocks'' args \<in> set (snd (perform a s))"
  with ClickCheck show ?thesis
    by (simp add: Let_def fetchBalance_sync_def split: if_splits)
qed simp_all

text \<open>
  Claim C4 says that \<open>nextPage\<close> sets the offset to \<open>offset + 10\<close> and
  \<open>prevPage\<close> to \<open>max 0 (offset - 10)\<close>. At the offset 18014398509481980 (a
  multiple of 10 that binary64 represents) \<open>nextPage\<close> stores, and passes to
  \<open>get_latest_blocks\<close>, 18014398509481992; at 18014398509482000 \<open>prevPage\<close>
  stores 18014398509481992.
\<close>

theorem pagination_counter_counterexample:
  "offset (state_of (nextPage (init\<lparr>offset := 18014398509481980, isTauri := True\<rparr>)))
     = 18014398509481992
   \<and> events_of (nextPage (init\<lparr>offset := 18014398509481980, isTauri := True\<rparr>))
     = [SetTimeout RejectTimeoutCb 10000,
        Invoke ''get_latest_blocks''
          (Some [(''limit'', JNum 10), (''offset'', JNum 18014398509481992)]),
        Invoke ''get_current_block'' None]
   \<and> offset (state_of (prevPage (init\<lparr>offset := 18014398509482000, isTauri := True\<rparr>)))
     = 18014398509481992"
  by (simp add: nextPage_def prevPage_def limit_def fetchBlocks_sync_def Let_def round64_tie)

text \<open>
  Claim C4, amended. \<open>nextPage\<close> sets the offset to \<open>offset + 10\<close> rounded to
  binary64 and calls \<open>fetchBlocks\<close>; \<open>prevPage\<close> sets it to the maximum of 0 and
  \<open>offset - 10\<close> rounded to binary64 and calls \<open>fetchBlocks\<close>. The rounding changes
  nothing, so that the new offset is \<open>offset + 10\<close> and \<open>max 0 (offset - 10)\<close>, when
  the exact result is below \<open>2^53\<close> in magnitude, and for an even offset when it is at
  most \<open>2^54\<close>. Whatever action issues \<open>get_latest_blocks\<close> passes exactly the limit
  10 and the offset the component has at that moment.
\<close>

theorem pagination_counter:
  "nextPage s = fetchBlocks_sync (s\<lparr>offset := round64 (offset s + 10)\<rparr>)
   \<and> offset (state_of (nextPage s)) = round64 (offset s + 10)
   \<and> prevPage s = fetchBlocks_sync (s\<lparr>offset := max 0 (round64 (offset s - 10))\<rparr>)
   \<and> offset (state_of (prevPage s)) = max 0 (round64 (offset s - 10))
   \<and> (\<bar>offset s + 10\<bar> < 2 ^ 53 \<or> (even (offset s) \<and> \<bar>offset s + 10\<bar> \<le> 2 ^ 54) \<longrightarrow>
        offset (state_of (nextPage s)) = offset s + 10)
   \<and> (\<bar>offset s - 10\<bar> < 2 ^ 53 \<or> (even (offset s) \<and> \<bar>offset s - 10\<bar> \<le> 2 ^ 54) \<longrightarrow>
        offset (state_of (prevPage s)) = max 0 (offset s - 10))
   \<and> (\<forall>args. Invoke ''get_latest_blocks'' args \<in> set (snd (perform a s)) \<longrightarrow>
         args = Some [(''limit'', JNum 10),
                      (''offset'', JNum (offset (fst (perform a s))))])"
proof -
  have A: "nextPage s = fetchBlocks_sync (s\<lparr>offset := round64 (offset s + 10)\<rparr>)"
    by (simp add: nextPage_def limit_def)
  have B: "prevPage s = fetchBlocks_sync (s\<lparr>offset := max 0 (round64 (offset s - 10))\<rparr>)"
    by (simp add: prevPage_def limit_def)
  have C: "\<bar>offset s + 10\<bar> < 2 ^ 53 \<or> (even (offset s) \<and> \<bar>offset s + 10\<bar> \<le> 2 ^ 54) \<longrightarrow>
        offset (state_of (nextPage s)) = offset s + 10"
  proof
    assume "\<bar>offset s + 10\<bar> < 2 ^ 53 \<or> (even (offset s) \<and> \<bar>offset s + 10\<bar> \<le> 2 ^ 54)"
    then have "round64 (offset s + 10) = offset s + 10"
    proof
      assume "\<bar>offset s + 10\<bar> < 2 ^ 53"
      then show ?thesis by (rule round64_small)
    next
      assume "even (offset s) \<and> \<bar>offset s + 10\<bar> \<le> 2 ^ 54"
      then show ?thesis by (intro round64_even) simp_all
    qed
    then show "offset (state_of (nextPage s)) = offset s + 10"
      by (simp only: offset_nextPage)
  qed
  have D: "\<bar>offset s - 10\<bar> < 2 ^ 53 \<or> (even (offset s) \<and> \<bar>offset s - 10\<bar> \<le> 2 ^ 54) \<longrightarrow>
        offset (state_of (prevPage s)) = max 0 (offset s - 10)"
  proof
    assume "\<bar>offset s - 10\<bar> < 2 ^ 53 \<or> (even (offset s) \<and> \<bar>offset s - 10\<bar> \<le> 2 ^ 54)"
    then have "round64 (offset s - 10) = offset s - 10"
    proof
      assume "\<bar>offset s - 10\<bar> < 2 ^ 53"
      then show ?thesis by (rule round64_small)
    next
      assume "even (offset s) \<and> \<bar>offset s - 10\<bar> \<le> 2 ^ 54"
      then show ?thesis by (intro round64_even) simp_all
    qed
    then show "offset (state_of (prevPage s)) = max 0 (offset s - 10)"
      by (simp only: offset_prevPage)
  qed
  have E: "\<forall>args. Invoke ''get_latest_blocks'' args \<in> set (snd (perform a s)) \<longrightarrow>
         args = Some [(''limit'', JNum 10),
                      (''offset'', JNum (offset (fst (perform a s))))]"
    by (intro allI impI) (rule latest_blocks_args_perform)
  show ?thesis by (intro conjI A B C D E offset_nextPage offset_prevPage)
qed

theorem pagination_counter_witness:
  "offset (state_of (nextPage (init\<lparr>isTauri := True\<rparr>))) = 10
   \<and> offset (state_of (prevPage (init\<lparr>offset := 30, isTauri := True\<rparr>))) = 20
   \<and> offset (state_of (prevPage (init\<lparr>isTauri := True\<rparr>))) = 0
   \<and> Invoke ''get_latest_blocks'' (Some [(''limit'', JNum 10), (''offset'', JNum 10)])
       \<in> set (snd (perform ClickNext (init\<lparr>isTauri := True\<rparr>)))"
proof -
  let ?s = "init\<lparr>isTauri := True\<rparr>"
  let ?t = "init\<lparr>offset := 30, isTauri := True\<rparr>"
  note ths = pagination_counter [of ?s ClickNext]
  note tht = pagination_counter [of ?t ClickNext]
  have h1: "\<bar>offset ?s + 10\<bar> < 2 ^ 53 \<or> (even (offset ?s) \<and> \<bar>offset ?s + 10\<bar> \<le> 2 ^ 54)"
    by (simp add: init_def)
  have h2: "\<bar>offset ?t - 10\<bar> < 2 ^ 53 \<or> (even (offset ?t) \<and> \<bar>offset ?t - 10\<bar> \<le> 2 ^ 54)"
    by simp
  have h3: "\<bar>offset ?s - 10\<bar> < 2 ^ 53 \<or> (even (offset ?s) \<and> \<bar>offset ?s - 10\<bar> \<le> 2 ^ 54)"
    by (simp add: init_def)
  note a = ths [THEN conjunct2, THEN conjunct2, THEN conjunct2, THEN conjunct2,
      THEN conjunct1, THEN mp, OF h1]
  note b = tht [THEN conjunct2, THEN conjunct2, THEN conjunct2, THEN conjunct2,
      THEN conjunct2, THEN conjunct1, THEN mp, OF h2]
  note c = ths [THEN conjunct2, THEN conjunct2, THEN conjunct2, THEN conjunct2,
      THEN conjunct2, THEN conjunct1, THEN mp, OF h3]
  note e = ths [THEN conjunct2, THEN conjunct2, THEN conjunct2, THEN conjunct2,
      THEN conjunct2, THEN conjunct2]
  from a have a': "offset (state_of (nextPage ?s)) = 10" by (simp add: init_def)
  from b have b': "offset (state_of (prevPage ?t)) = 20" by simp
  from c have c': "offset (state_of (prevPage ?s)) = 0" by (simp add: init_def)
  obtain args where m: "Invoke ''get_latest_blocks'' args \<in> set (snd (perform ClickNext ?s))"
    by (simp add: nextPage_def fetchBlocks_sync_def Let_def)
  with e have "args = Some [(''limit'', JNum 10),
                      (''offset'', JNum (offset (fst (perform ClickNext ?s))))]"
    by blast
  with a' have "args = Some [(''limit'', JNum 10), (''offset'', JNum 10)]"
    by (simp add: Let_def)
  with m have d': "Invoke ''get_latest_blocks'' (Some [(''limit'', JNum 10), (''offset'', JNum 10)])
       \<in> set (snd (perform ClickNext ?s))" by simp
  from a' b' c' d' show ?thesis by (intro conjI)
qed

section \<open>The remote-invocation bridge\<close>

lemma invoke_perform:
  "Invoke c args \<in> set (snd (perform a s)) \<Longrightarrow>
     (c, args) \<in> {(''get_latest_blocks'',
                    Some [(''limit'', JNum 10),
                          (''offset'', JNum (offset (fst (perform a s))))]),
                  (''get_current_block'', None),
                  (''get_account_balance'', Some [(''address'', JStr (addressBalance s))])}"
proof (cases a)
  case (Mount w h)
  assume "Invoke c args \<in> set (snd (perform a s))"
  with Mount show ?thesis
    by (auto simp add: onMount_def Let_def fetchBlocks_sync_def limit_def split: if_splits)
next
  case TimerTick
  assume "Invoke c args \<in> set (snd (perform a s))"
  with TimerTick show ?thesis
    by (auto simp add: Let_def fetchBlocks_sync_def limit_def split: if_splits)
next
  case ClickNext
  assume "Invoke c args \<in> set (snd (perform a s))"
  with ClickNext show ?thesis
    by (auto simp add: Let_def nextPage_def fetchBlocks_sync_def limit_def split: if_splits)
next
  case ClickPrevious
  assume "Invoke c args \<in> set (snd (perform a s))"
  with ClickPrevious show ?thesis
    by (auto simp add: Let_def prevPage_def fetchBlocks_sync_def limit_def split: if_splits)
next
  case ClickLookup
  assume "Invoke c args \<in> set (snd (perform a s))"
  with ClickLookup show ?thesis
    by (simp add: Let_def fetchTransaction_def split: if_splits)
next
  case ClickCheck
  assume "Invoke c args \<in> set (snd (perform a s))"
  with ClickCheck show ?thesis
    by (auto simp add: Let_def fetchBalance_sync_def split: if_splits)
qed simp_all

lemma invoke_fetchAllTransactions_cont:
  "filter is_invoke (snd (fetchAllTransactions_cont out t)) = []"
  by (cases out) (simp_all add: fetchAllTransactions_cont_def Let_def)

lemma receive_fetchBlocks:
  "blocks (fetchBlocks_cont now (Fulfilled (bs, ht)) s) = bs"
  "currentHeight (fetchBlocks_cont now (Fulfilled (bs, ht)) s) = ht"
  "error (fetchBlocks_cont now (Rejected e) s) = Some fetch_failed_msg"
  by (simp_all add: fetchBlocks_cont_def Let_def)

lemma receive_fetchBalance:
  "balanceResult (fetchBalance_cont (Fulfilled b) s) = Some (b @ js '' ETH'')"
  "balanceError (fetchBalance_cont (Rejected e) s) = Some e"
  by (simp_all add: fetchBalance_cont_def)

lemma receive_fetchAllTransactions:
  "all_transactions (fst (fetchAllTransactions_cont (Fulfilled v) t)) = v"
  "tx_error (fst (fetchAllTransactions_cont (Rejected e) t))
     = Some (js ''Failed to fetch transactions: '' @ e)"
  by (simp_all add: fetchAllTransactions_cont_def Let_def)

lemma fetchBlocks_value:
  "isTauri s \<Longrightarrow>
     fetchBlocks now (Value bs) (Value ht) s =
       Returned (s\<lparr>blocks := bs, error := None, currentHeight := ht, isLoading := False\<rparr>)
         [SetTimeout RejectTimeoutCb 10000,
          Invoke ''get_latest_blocks''
            (Some [(''limit'', JNum 10), (''offset'', JNum (offset s))]),
          Invoke ''get_current_block'' None]"
  by (simp add: fetchBlocks_def fetchBlocks_sync_tauri fetchBlocks_cont_def)

lemma fetchBlocks_error:
  "isTauri s \<Longrightarrow> \<not> (\<exists>bs ht. r1 = Value bs \<and> r2 = Value ht) \<Longrightarrow>
     returned (fetchBlocks now r1 r2 s)
     \<and> error (state_of (fetchBlocks now r1 r2 s)) = Some fetch_failed_msg"
  by (cases r1; cases r2)
    (simp_all add: fetchBlocks_def fetchBlocks_sync_tauri fetchBlocks_cont_def Let_def)

lemma fetchBalance_whole:
  assumes "isTauri s" and "trim (addressBalance s) \<noteq> []"
  shows "fetchBalance (Value b) s =
       Returned (s\<lparr>balanceResult := Some (b @ js '' ETH''), balanceError := None\<rparr>)
         [Invoke ''get_account_balance'' (Some [(''address'', JStr (addressBalance s))])]"
    and "fetchBalance (Failure e) s =
       Returned (s\<lparr>balanceError := Some e\<rparr>)
         [Invoke ''get_account_balance'' (Some [(''address'', JStr (addressBalance s))])]"
    and "fetchBalance Pending s =
       Suspended (s\<lparr>balanceError := None\<rparr>)
         [Invoke ''get_account_balance'' (Some [(''address'', JStr (addressBalance s))])]"
  using assms
  by (simp_all add: fetchBalance_def fetchBalance_sync_def fetchBalance_cont_def truthy_def)

lemma fetchAllTransactions_whole:
  "fetchAllTransactions (Value v) t =
     Returned (t\<lparr>all_transactions := v, tx_isLoading := False, tx_error := None\<rparr>)
       (Invoke ''get_all_transactions'' None #
        (if v = [] then [ToastInfo (js ''No transactions found on the blockchain.'')] else []))"
  "fetchAllTransactions (Failure e) t =
     Returned (t\<lparr>tx_isLoading := False,
                 tx_error := Some (js ''Failed to fetch transactions: '' @ e)\<rparr>)
       [Invoke ''get_all_transactions'' None,
        ConsoleError (js ''Failed to fetch all transactions:'') e,
        ToastError (js ''Failed to fetch transactions: '' @ e)]"
  "fetchAllTransactions Pending t =
     Suspended (t\<lparr>tx_isLoading := True, tx_error := None\<rparr>)
       [Invoke ''get_all_transactions'' None]"
  by (simp_all add: fetchAllTransactions_def fetchAllTransactions_sync_def
      fetchAllTransactions_cont_def Let_def)

text \<open>
  Claim C5 says that each call site receives either a value or an error. The call sites
  of \<open>get_account_balance\<close> and \<open>get_all_transactions\<close> are bare \<open>await\<close>s: when
  the backend does not answer, \<open>fetchBalance\<close> and \<open>fetchAllTransactions\<close> stay
  suspended, and neither a result nor an error reaches the component state.
\<close>

theorem bridge_commands_counterexample:
  "\<not> returned (fetchBalance Pending (init\<lparr>addressBalance := js ''0xdef'', isTauri := True\<rparr>))
   \<and> balanceResult (state_of
         (fetchBalance Pending (init\<lparr>addressBalance := js ''0xdef'', isTauri := True\<rparr>))) = None
   \<and> balanceError (state_of
         (fetchBalance Pending (init\<lparr>addressBalance := js ''0xdef'', isTauri := True\<rparr>))) = None
   \<and> \<not> returned (fetchAllTransactions Pending tx_init)
   \<and> all_transactions (state_of (fetchAllTransactions Pending tx_init)) = []
   \<and> tx_error (state_of (fetchAllTransactions Pending tx_init)) = None"
  by (simp add: fetchBalance_def fetchBalance_sync_def truthy_def trim_def js_def is_ws_def
      init_def fetchAllTransactions_def fetchAllTransactions_sync_def tx_init_def)

text \<open>
  Claim C5, amended. Every \<open>invoke\<close> of the block explorer is \<open>get_latest_blocks\<close>
  with \<open>{limit, offset}\<close>, \<open>get_current_block\<close> without arguments, or
  \<open>get_account_balance\<close> with \<open>{address}\<close>, and each of the three occurs; the
  all-transactions panel invokes \<open>get_all_transactions\<close> without arguments and nothing
  else. A call that the backend answers receives the value, which it stores, or the
  error, which it turns into the error string. When the backend does not answer, the
  call site of \<open>fetchBlocks\<close> receives the timeout error, and the call sites of
  \<open>fetchBalance\<close> and \<open>fetchAllTransactions\<close> receive nothing: the call stays
  suspended.
\<close>

theorem bridge_commands:
  "(\<forall>c args. Invoke c args \<in> set (snd (perform a s)) \<longrightarrow>
      (c, args) \<in> {(''get_latest_blocks'',
                     Some [(''limit'', JNum 10),
                           (''offset'', JNum (offset (fst (perform a s))))]),
                   (''get_current_block'', None),
                   (''get_account_balance'', Some [(''address'', JStr (addressBalance s))])})
   \<and> (isTauri s \<longrightarrow>
        filter is_invoke (events_of (fetchBlocks_sync s))
          = [Invoke ''get_latest_blocks''
               (Some [(''limit'', JNum 10), (''offset'', JNum (offset s))]),
             Invoke ''get_current_block'' None])
   \<and> (isTauri s \<and> trim (addressBalance s) \<noteq> [] \<longrightarrow>
        events_of (fetchBalance_sync s)
          = [Invoke ''get_account_balance'' (Some [(''address'', JStr (addressBalance s))])])
   \<and> events_of (fetchAllTransactions_sync t) = [Invoke ''get_all_transactions'' None]
   \<and> filter is_invoke (snd (fetchAllTransactions_cont out t)) = []
   \<and> blocks (fetchBlocks_cont now (Fulfilled (bs, ht)) s) = bs
   \<and> currentHeight (fetchBlocks_cont now (Fulfilled (bs, ht)) s) = ht
   \<and> error (fetchBlocks_cont now (Rejected e) s) = Some fetch_failed_msg
   \<and> balanceResult (fetchBalance_cont (Fulfilled b) s) = Some (b @ js '' ETH'')
   \<and> balanceError (fetchBalance_cont (Rejected e) s) = Some e
   \<and> all_transactions (fst (fetchAllTransactions_cont (Fulfilled v) t)) = v
   \<and> tx_error (fst (fetchAllTransactions_cont (Rejected e) t))
       = Some (js ''Failed to fetch transactions: '' @ e)
   \<and> (isTauri s \<longrightarrow>
        fetchBlocks now (Value bs) (Value ht) s =
          Returned (s\<lparr>blocks := bs, error := None, currentHeight := ht, isLoading := False\<rparr>)
            [SetTimeout RejectTimeoutCb 10000,
             Invoke ''get_latest_blocks''
               (Some [(''limit'', JNum 10), (''offset'', JNum (offset s))]),
             Invoke ''get_current_block'' None])
   \<and> (isTauri s \<and> \<not> (\<exists>bs ht. r1 = Value bs \<and> r2 = Value ht) \<longrightarrow>
        returned (fetchBlocks now r1 r2 s)
        \<and> error (state_of (fetchBlocks now r1 r2 s)) = Some fetch_failed_msg)
   \<and> (isTauri s \<and> trim (addressBalance s) \<noteq> [] \<longrightarrow>
        fetchBalance (Value b) s =
          Returned (s\<lparr>balanceResult := Some (b @ js '' ETH''), balanceError := None\<rparr>)
            [Invoke ''get_account_balance'' (Some [(''address'', JStr (addressBalance s))])]
        \<and> fetchBalance (Failure e) s =
          Returned (s\<lparr>balanceError := Some e\<rparr>)
            [Invoke ''get_account_balance'' (Some [(''address'', JStr (addressBalance s))])]
        \<and> fetchBalance Pending s =
          Suspended (s\<lparr>balanceError := None\<rparr>)
            [Invoke ''get_account_balance'' (Some [(''address'', JStr (addressBalance s))])])
   \<and> fetchAllTransactions (Value v) t =
       Returned (t\<lparr>all_transactions := v, tx_isLoading := False, tx_error := None\<rparr>)
         (Invoke ''get_all_transactions'' None #
          (if v = [] then [ToastInfo (js ''No transactions found on the blockchain.'')]
           else []))
   \<and> fetchAllTransactions (Failure e) t =
       Returned (t\<lparr>tx_isLoading := False,
                   tx_error := Some (js ''Failed to fetch transactions: '' @ e)\<rparr>)
         [Invoke ''get_all_transactions'' None,
          ConsoleError (js ''Failed to fetch all transactions:'') e,
          ToastError (js ''Failed to fetch transactions: '' @ e)]
   \<and> fetchAllTransactions Pending t =
       Suspended (t\<lparr>tx_isLoading := True, tx_error := None\<rparr>)
         [Invoke ''get_all_transactions'' None]"
proof -
  have A: "\<forall>c args. Invoke c args \<in> set (snd (perform a s)) \<longrightarrow>
      (c, args) \<in> {(''get_latest_blocks'',
                     Some [(''limit'', JNum 10),
                           (''offset'', JNum (offset (fst (perform a s))))]),
                   (''get_current_block'', None),
                   (''get_account_balance'', Some [(''address'', JStr (addressBalance s))])}"
    by (intro allI impI) (rule invoke_perform)
  have B: "isTauri s \<longrightarrow>
        filter is_invoke (events_of (fetchBlocks_sync s))
          = [Invoke ''get_latest_blocks''
               (Some [(''limit'', JNum 10), (''offset'', JNum (offset s))]),
             Invoke ''get_current_block'' None]"
    by (simp add: fetchBlocks_sync_tauri)
  have C: "isTauri s \<and> trim (addressBalance s) \<noteq> [] \<longrightarrow>
        events_of (fetchBalance_sync s)
          = [Invoke ''get_account_balance'' (Some [(''address'', JStr (addressBalance s))])]"
    by (simp add: fetchBalance_sync_def truthy_def)
  have D: "events_of (fetchAllTransactions_sync t) = [Invoke ''get_all_transactions'' None]"
    by (simp add: fetchAllTransactions_sync_def)
  have E: "isTauri s \<longrightarrow>
        fetchBlocks now (Value bs) (Value ht) s =
          Returned (s\<lparr>blocks := bs, error := None, currentHeight := ht, isLoading := False\<rparr>)
            [SetTimeout RejectTimeoutCb 10000,
             Invoke ''get_latest_blocks''
               (Some [(''limit'', JNum 10), (''offset'', JNum (offset s))]),
             Invoke ''get_current_block'' None]"
    by (intro impI) (rule fetchBlocks_value)
  have F: "isTauri s \<and> \<not> (\<exists>bs ht. r1 = Value bs \<and> r2 = Value ht) \<longrightarrow>
        returned (fetchBlocks now r1 r2 s)
        \<and> error (state_of (fetchBlocks now r1 r2 s)) = Some fetch_failed_msg"
    by (intro impI, elim conjE) (rule fetchBlocks_error)
  have G: "isTauri s \<and> trim (addressBalance s) \<noteq> [] \<longrightarrow>
        fetchBalance (Value b) s =
          Returned (s\<lparr>balanceResult := Some (b @ js '' ETH''), balanceError := None\<rparr>)
            [Invoke ''get_account_balance'' (Some [(''address'', JStr (addressBalance s))])]
        \<and> fetchBalance (Failure e) s =
          Returned (s\<lparr>balanceError := Some e\<rparr>)
            [Invoke ''get_account_balance'' (Some [(''address'', JStr (addressBalance s))])]
        \<and> fetchBalance Pending s =
          Suspended (s\<lparr>balanceError := None\<rparr>)
            [Invoke ''get_account_balance'' (Some [(''address'', JStr (addressBalance s))])]"
    by (intro impI, elim conjE) (intro conjI fetchBalance_whole)
  show ?thesis
    by (intro conjI A B C D E F G invoke_fetchAllTransactions_cont receive_fetchBlocks
        receive_fetchBalance receive_fetchAllTransactions fetchAllTransactions_whole)
qed

theorem bridge_commands_witness:
  "Invoke ''get_account_balance'' (Some [(''address'', JStr (js ''0xdef''))])
     \<in> set (snd (perform ClickCheck (init\<lparr>addressBalance := js ''0xdef'', isTauri := True\<rparr>)))
   \<and> filter is_invoke (events_of (fetchBlocks_sync
        (init\<lparr>addressBalance := js ''0xdef'', isTauri := True\<rparr>)))
       = [Invoke ''get_latest_blocks'' (Some [(''limit'', JNum 10), (''offset'', JNum 0)]),
          Invoke ''get_current_block'' None]
   \<and> events_of (fetchBalance_sync (init\<lparr>addressBalance := js ''0xdef'', isTauri := True\<rparr>))
       = [Invoke ''get_account_balance'' (Some [(''address'', JStr (js ''0xdef''))])]
   \<and> events_of (fetchAllTransactions_sync tx_init) = [Invoke ''get_all_transactions'' None]
   \<and> state_of (fetchBlocks 0 (Value []) (Value 12)
        (init\<lparr>addressBalance := js ''0xdef'', isTauri := True\<rparr>))
       = init\<lparr>addressBalance := js ''0xdef'', isTauri := True, currentHeight := 12\<rparr>
   \<and> error (state_of (fetchBlocks 0 (Value []) (Failure (js ''no node''))
        (init\<lparr>addressBalance := js ''0xdef'', isTauri := True\<rparr>)))
       = Some fetch_failed_msg
   \<and> state_of (fetchBalance (Value (js ''1.5''))
        (init\<lparr>addressBalance := js ''0xdef'', isTauri := True\<rparr>))
       = init\<lparr>addressBalance := js ''0xdef'', isTauri := True,
           balanceResult := Some (js ''1.5 ETH'')\<rparr>"
proof -
  let ?s = "init\<lparr>addressBalance := js ''0xdef'', isTauri := True\<rparr>"
  note th = bridge_commands [of ClickCheck ?s tx_init "Rejected []" 0 "[]" 12 "[]"
      "js ''1.5''" "[]" "Value []" "Failure (js ''no node'')"]
  have h1: "isTauri ?s" by simp
  have h2: "trim (addressBalance ?s) \<noteq> []" by (simp add: trim_def js_def is_ws_def)
  have h3: "isTauri ?s \<and> \<not> (\<exists>bs ht. (Value [] :: BlockDetail list reply) = Value bs
      \<and> (Failure (js ''no node'') :: int reply) = Value ht)" by simp
  have a: "Invoke ''get_account_balance'' (Some [(''address'', JStr (js ''0xdef''))])
     \<in> set (snd (perform ClickCheck ?s))"
    using h2 by (simp add: fetchBalance_sync_def truthy_def Let_def)
  note b = th [THEN conjunct2, THEN conjunct1, THEN mp, OF h1]
  note c = th [THEN conjunct2, THEN conjunct2, THEN conjunct1, THEN mp, OF conjI [OF h1 h2]]
  note d = th [THEN conjunct2, THEN conjunct2, THEN conjunct2, THEN conjunct1]
  note rest = th [THEN conjunct2, THEN conjunct2, THEN conjunct2, THEN conjunct2,
      THEN conjunct2, THEN conjunct2, THEN conjunct2, THEN conjunct2, THEN conjunct2,
      THEN conjunct2, THEN conjunct2, THEN conjunct2]
  note e = rest [THEN conjunct1, THEN mp, OF h1]
  note f = rest [THEN conjunct2, THEN conjunct1, THEN mp, OF h3, THEN conjunct2]
  note g = rest [THEN conjunct2, THEN conjunct2, THEN conjunct1, THEN mp, OF conjI [OF h1 h2],
      THEN conjunct1]
  from a b c d e f g show ?thesis by (simp add: init_def js_def)
qed

section \<open>Failure of a fetch\<close>

lemma race_rejected:
  "\<not> (\<exists>bs ht. r1 = Value bs \<and> r2 = Value ht) \<Longrightarrow>
     \<exists>e. race_timeout (promise_all r1 r2) = Rejected e"
  by (cases r1; cases r2) simp_all

lemma fetchBlocks_cont_rejected:
  "fetchBlocks_cont now (Rejected e) s =
     (if blocks s = []
      then s\<lparr>blocks := [placeholder_block now], error := Some fetch_failed_msg,
             currentHeight := 0, isLoading := False\<rparr>
      else s\<lparr>error := Some fetch_failed_msg, isLoading := False\<rparr>)"
  by (simp add: fetchBlocks_cont_def Let_def)

lemma fetchBlocks_rejected:
  assumes "isTauri s" and "race_timeout (promise_all r1 r2) = Rejected e"
  shows "fetchBlocks now r1 r2 s =
     Returned
       (if blocks s = []
        then s\<lparr>blocks := [placeholder_block now], error := Some fetch_failed_msg,
               currentHeight := 0, isLoading := False\<rparr>
        else s\<lparr>error := Some fetch_failed_msg, isLoading := False\<rparr>)
       [SetTimeout RejectTimeoutCb 10000,
        Invoke ''get_latest_blocks''
          (Some [(''limit'', JNum 10), (''offset'', JNum (offset s))]),
        Invoke ''get_current_block'' None]"
  using assms
  by (simp add: fetchBlocks_def fetchBlocks_sync_tauri fetchBlocks_cont_rejected)

text \<open>
  Claim C2 says that a failed fetch never repopulates the records. Inside Tauri with an
  empty list (the state at mount), a fetch whose first invocation fails installs the
  placeholder block.
\<close>

theorem failed_fetch_counterexample:
  "blocks (init\<lparr>isTauri := True\<rparr>) = []
   \<and> blocks (state_of (fetchBlocks 1700000000123 (Failure (js ''connection refused'')) Pending
        (init\<lparr>isTauri := True\<rparr>)))
     = [\<lparr>number = 0,
         hash = js ''0x0000000000000000000000000000000000000000000000000000000000000000'',
         miner = js ''0x0000000000000000000000000000000000000000'',
         timestamp = 1700000000,
         transaction_count = 0,
         transactions = []\<rparr>]"
  by (simp add: fetchBlocks_def fetchBlocks_sync_def fetchBlocks_cont_def Let_def init_def
      placeholder_block_def zero_address_def)

text \<open>
  Claim C2, amended. A \<open>fetchBlocks\<close> whose remote calls fail (one is answered with an
  error, or they are not both answered before the timeout) produces only the events of
  the one attempt, with no retry; it sets the error message and clears \<open>isLoading\<close>;
  when the list of blocks is not empty it changes nothing else, and when the list is empty
  it also installs the one placeholder block and sets \<open>currentHeight\<close> to 0.
\<close>

theorem failed_fetch_effect:
  "isTauri s \<Longrightarrow> \<not> (\<exists>bs ht. r1 = Value bs \<and> r2 = Value ht) \<Longrightarrow>
     fetchBlocks now r1 r2 s =
       Returned
         (if blocks s = []
          then s\<lparr>blocks := [placeholder_block now], error := Some fetch_failed_msg,
                 currentHeight := 0, isLoading := False\<rparr>
          else s\<lparr>error := Some fetch_failed_msg, isLoading := False\<rparr>)
         [SetTimeout RejectTimeoutCb 10000,
          Invoke ''get_latest_blocks''
            (Some [(''limit'', JNum 10), (''offset'', JNum (offset s))]),
          Invoke ''get_current_block'' None]"
proof -
  assume t: "isTauri s" and f: "\<not> (\<exists>bs ht. r1 = Value bs \<and> r2 = Value ht)"
  from f obtain e where "race_timeout (promise_all r1 r2) = Rejected e"
    using race_rejected by blast
  with t show ?thesis by (rule fetchBlocks_rejected)
qed

theorem failed_fetch_effect_witness:
  "fetchBlocks 5000 Pending (Value 7) (init\<lparr>isTauri := True\<rparr>) =
     Returned (init\<lparr>isTauri := True, blocks := [placeholder_block 5000],
                 error := Some fetch_failed_msg\<rparr>)
       [SetTimeout RejectTimeoutCb 10000,
        Invoke ''get_latest_blocks'' (Some [(''limit'', JNum 10), (''offset'', JNum 0)]),
        Invoke ''get_current_block'' None]
   \<and> fetchBlocks 5000 Pending (Value 7)
       (init\<lparr>isTauri := True, blocks := [placeholder_block 1], currentHeight := 4\<rparr>) =
     Returned (init\<lparr>isTauri := True, blocks := [placeholder_block 1], currentHeight := 4,
                 error := Some fetch_failed_msg\<rparr>)
       [SetTimeout RejectTimeoutCb 10000,
        Invoke ''get_latest_blocks'' (Some [(''limit'', JNum 10), (''offset'', JNum 0)]),
        Invoke ''get_current_block'' None]"
proof -
  let ?s = "init\<lparr>isTauri := True\<rparr>"
  let ?t = "init\<lparr>isTauri := True, blocks := [placeholder_block 1], currentHeight := 4\<rparr>"
  have f: "\<not> (\<exists>bs ht. (Pending :: BlockDetail list reply) = Value bs
      \<and> (Value 7 :: int reply) = Value ht)" by simp
  have a: "isTauri ?s" by simp
  have b: "isTauri ?t" by simp
  from failed_fetch_effect [OF a f, of 5000] failed_fetch_effect [OF b f, of 5000]
  show ?thesis by (simp add: init_def)
qed

text \<open>
  Claim C10. At the moment the fetch fails: when the list of blocks is not empty, only
  the error string and \<open>isLoading\<close> change (so the blocks and \<open>currentHeight\<close> stay);
  when it is empty, the placeholder block (number 0, all-zero hash and miner) is installed
  and \<open>currentHeight\<close> becomes 0. The same holds of a whole call of \<open>fetchBlocks\<close>
  that fails on a non-empty list.
\<close>

theorem stale_data_preserved:
  "(blocks s \<noteq> [] \<longrightarrow>
      fetchBlocks_cont now (Rejected e) s
        = s\<lparr>error := Some fetch_failed_msg, isLoading := False\<rparr>
      \<and> blocks (fetchBlocks_cont now (Rejected e) s) = blocks s
      \<and> currentHeight (fetchBlocks_cont now (Rejected e) s) = currentHeight s)
   \<and> (blocks s = [] \<longrightarrow>
        blocks (fetchBlocks_cont now (Rejected e) s)
          = [\<lparr>number = 0,
              hash = js ''0x0000000000000000000000000000000000000000000000000000000000000000'',
              miner = js ''0x0000000000000000000000000000000000000000'',
              timestamp = now div 1000,
              transaction_count = 0,
              transactions = []\<rparr>]
        \<and> currentHeight (fetchBlocks_cont now (Rejected e) s) = 0)
   \<and> (isTauri s \<and> blocks s \<noteq> [] \<and> \<not> (\<exists>bs ht. r1 = Value bs \<and> r2 = Value ht) \<longrightarrow>
        state_of (fetchBlocks now r1 r2 s)
          = s\<lparr>error := Some fetch_failed_msg, isLoading := False\<rparr>)"
proof -
  have A: "blocks s \<noteq> [] \<longrightarrow>
      fetchBlocks_cont now (Rejected e) s
        = s\<lparr>error := Some fetch_failed_msg, isLoading := False\<rparr>
      \<and> blocks (fetchBlocks_cont now (Rejected e) s) = blocks s
      \<and> currentHeight (fetchBlocks_cont now (Rejected e) s) = currentHeight s"
    by (simp add: fetchBlocks_cont_rejected)
  have B: "blocks s = [] \<longrightarrow>
        blocks (fetchBlocks_cont now (Rejected e) s)
          = [\<lparr>number = 0,
              hash = js ''0x0000000000000000000000000000000000000000000000000000000000000000'',
              miner = js ''0x0000000000000000000000000000000000000000'',
              timestamp = now div 1000,
              transaction_count = 0,
              transactions = []\<rparr>]
        \<and> currentHeight (fetchBlocks_cont now (Rejected e) s) = 0"
    by (simp add: fetchBlocks_cont_rejected placeholder_block_def zero_address_def)
  have C: "isTauri s \<and> blocks s \<noteq> [] \<and> \<not> (\<exists>bs ht. r1 = Value bs \<and> r2 = Value ht) \<longrightarrow>
        state_of (fetchBlocks now r1 r2 s)
          = s\<lparr>error := Some fetch_failed_msg, isLoading := False\<rparr>"
  proof (intro impI, elim conjE)
    assume t: "isTauri s" and ne: "blocks s \<noteq> []"
      and f: "\<not> (\<exists>bs ht. r1 = Value bs \<and> r2 = Value ht)"
    from f obtain e' where "race_timeout (promise_all r1 r2) = Rejected e'"
      using race_rejected by blast
    with t ne show "state_of (fetchBlocks now r1 r2 s)
          = s\<lparr>error := Some fetch_failed_msg, isLoading := False\<rparr>"
      by (simp add: fetchBlocks_rejected)
  qed
  show ?thesis by (intro conjI A B C)
qed

theorem stale_data_preserved_witness:
  "fetchBlocks_cont 5000 (Rejected (js ''Request timeout''))
       (init\<lparr>isTauri := True, blocks := [placeholder_block 1], currentHeight := 4,
          isLoading := True\<rparr>)
     = init\<lparr>isTauri := True, blocks := [placeholder_block 1], currentHeight := 4,
          error := Some fetch_failed_msg\<rparr>
   \<and> currentHeight (fetchBlocks_cont 5000 (Rejected (js ''Request timeout''))
       (init\<lparr>isTauri := True, currentHeight := 4, isLoading := True\<rparr>)) = 0
   \<and> state_of (fetchBlocks 5000 (Value []) (Failure (js ''no node''))
       (init\<lparr>isTauri := True, blocks := [placeholder_block 1], currentHeight := 4,
          isLoading := True\<rparr>))
     = init\<lparr>isTauri := True, blocks := [placeholder_block 1], currentHeight := 4,
          error := Some fetch_failed_msg\<rparr>"
proof -
  let ?t = "init\<lparr>isTauri := True, blocks := [placeholder_block 1], currentHeight := 4,
          isLoading := True\<rparr>"
  let ?u = "init\<lparr>isTauri := True, currentHeight := 4, isLoading := True\<rparr>"
  let ?e = "js ''Request timeout''"
  have h1: "blocks ?t \<noteq> []" by simp
  have h2: "blocks ?u = []" by (simp add: init_def)
  have h3: "isTauri ?t \<and> blocks ?t \<noteq> []
      \<and> \<not> (\<exists>bs ht. (Value [] :: BlockDetail list reply) = Value bs
            \<and> (Failure (js ''no node'') :: int reply) = Value ht)" by simp
  note th = stale_data_preserved [of ?t 5000 ?e "Value []" "Failure (js ''no node'')"]
  note tu = stale_data_preserved [of ?u 5000 ?e "Value []" "Failure (js ''no node'')"]
  note a = th [THEN conjunct1, THEN mp, OF h1, THEN conjunct1]
  note b = tu [THEN conjunct2, THEN conjunct1, THEN mp, OF h2, THEN conjunct2]
  note c = th [THEN conjunct2, THEN conjunct2, THEN mp, OF h3]
  from a b c show ?thesis by (simp add: init_def)
qed

section \<open>Activation and the timeout guard\<close>

lemma fetchBlocks_returned: "returned (fetchBlocks now r1 r2 s)"
  by (simp add: fetchBlocks_def split: step.split)

lemma fetchBlocks_pending:
  "isTauri s \<Longrightarrow>
     error (state_of (fetchBlocks now Pending Pending s)) = Some fetch_failed_msg
     \<and> \<not> isLoading (state_of (fetchBlocks now Pending Pending s))"
  by (simp add: fetchBlocks_def fetchBlocks_sync_tauri fetchBlocks_cont_rejected)

lemma onMount_tauri_events:
  "detect_tauri w \<Longrightarrow>
     fst (snd (onMount w h s)) =
       [SetTimeout RejectTimeoutCb 10000,
        Invoke ''get_latest_blocks''
          (Some [(''limit'', JNum 10), (''offset'', JNum (offset s))]),
        Invoke ''get_current_block'' None,
        SetInterval FetchBlocksCb 10000 h]"
  by (simp add: onMount_def Let_def fetchBlocks_sync_def limit_def)

lemma onMount_web_events: "\<not> detect_tauri w \<Longrightarrow> fst (snd (onMount w h s)) = []"
  by (simp add: onMount_def Let_def)

lemma fetchAllTransactions_pending:
  "fetchAllTransactions Pending t =
     Suspended (t\<lparr>tx_isLoading := True, tx_error := None\<rparr>)
       [Invoke ''get_all_transactions'' None]"
  by (simp add: fetchAllTransactions_def fetchAllTransactions_sync_def)

lemma fetchBalance_pending:
  "isTauri s \<Longrightarrow> trim (addressBalance s) \<noteq> [] \<Longrightarrow>
     fetchBalance Pending s =
       Suspended (s\<lparr>balanceError := None\<rparr>)
         [Invoke ''get_account_balance'' (Some [(''address'', JStr (addressBalance s))])]"
  by (simp add: fetchBalance_def fetchBalance_sync_def truthy_def)

text \<open>
  Claim C1 says that both panels issue a remote call when they are mounted and that every
  remote call is guarded by a timeout. The all-transactions panel produces no event when
  it is created, and its \<open>fetchAllTransactions\<close> stays suspended, with the loading flag
  set, when the backend does not answer; the block explorer mounted outside Tauri
  produces no event; and its \<open>fetchBalance\<close> stays suspended in the same way.
\<close>

theorem activation_counterexample:
  "events_of tx_mount = []
   \<and> fetchAllTransactions Pending tx_init =
       Suspended (tx_init\<lparr>tx_isLoading := True\<rparr>) [Invoke ''get_all_transactions'' None]
   \<and> fst (snd (onMount None 0 init)) = []
   \<and> fetchBalance Pending (init\<lparr>addressBalance := js ''0xdef'', isTauri := True\<rparr>) =
       Suspended (init\<lparr>addressBalance := js ''0xdef'', isTauri := True\<rparr>)
         [Invoke ''get_account_balance'' (Some [(''address'', JStr (js ''0xdef''))])]"
  by (simp add: tx_mount_def fetchAllTransactions_pending tx_init_def onMount_def
      detect_tauri_def fetchBalance_def fetchBalance_sync_def truthy_def trim_def js_def
      is_ws_def init_def)

text \<open>
  Claim C1, amended. The block explorer, mounted inside Tauri, issues
  \<open>get_latest_blocks\<close> and \<open>get_current_block\<close> after starting a 10000 ms timeout;
  the race against that timeout makes every call of \<open>fetchBlocks\<close> return, and when
  the backend does not answer it returns with the error message set and the loading flag
  cleared. Mounted outside Tauri, the block explorer issues no remote call. The
  all-transactions panel issues no remote call when it is created; its one remote call,
  \<open>get_all_transactions\<close>, is issued by \<open>fetchAllTransactions\<close> without a timeout,
  which stays suspended while the backend does not answer. The block explorer's
  \<open>get_account_balance\<close> is issued without a timeout as well.
\<close>

theorem activation_calls:
  "(detect_tauri w \<longrightarrow>
      fst (snd (onMount w h s)) =
        [SetTimeout RejectTimeoutCb 10000,
         Invoke ''get_latest_blocks''
           (Some [(''limit'', JNum 10), (''offset'', JNum (offset s))]),
         Invoke ''get_current_block'' None,
         SetInterval FetchBlocksCb 10000 h])
   \<and> returned (fetchBlocks now r1 r2 s)
   \<and> (isTauri s \<longrightarrow>
        error (state_of (fetchBlocks now Pending Pending s)) = Some fetch_failed_msg
        \<and> \<not> isLoading (state_of (fetchBlocks now Pending Pending s)))
   \<and> (\<not> detect_tauri w \<longrightarrow> fst (snd (onMount w h s)) = [])
   \<and> events_of tx_mount = []
   \<and> events_of (fetchAllTransactions_sync t) = [Invoke ''get_all_transactions'' None]
   \<and> fetchAllTransactions Pending t =
       Suspended (t\<lparr>tx_isLoading := True, tx_error := None\<rparr>)
         [Invoke ''get_all_transactions'' None]
   \<and> (isTauri s \<and> trim (addressBalance s) \<noteq> [] \<longrightarrow>
        fetchBalance Pending s =
          Suspended (s\<lparr>balanceError := None\<rparr>)
            [Invoke ''get_account_balance''
               (Some [(''address'', JStr (addressBalance s))])])"
proof -
  have A: "detect_tauri w \<longrightarrow>
      fst (snd (onMount w h s)) =
        [SetTimeout RejectTimeoutCb 10000,
         Invoke ''get_latest_blocks''
           (Some [(''limit'', JNum 10), (''offset'', JNum (offset s))]),
         Invoke ''get_current_block'' None,
         SetInterval FetchBlocksCb 10000 h]"
    by (intro impI) (rule onMount_tauri_events)
  have B: "isTauri s \<longrightarrow>
        error (state_of (fetchBlocks now Pending Pending s)) = Some fetch_failed_msg
        \<and> \<not> isLoading (state_of (fetchBlocks now Pending Pending s))"
    by (intro impI) (rule fetchBlocks_pending)
  have C: "\<not> detect_tauri w \<longrightarrow> fst (snd (onMount w h s)) = []"
    by (intro impI) (rule onMount_web_events)
  have D: "events_of tx_mount = []"
    by (simp add: tx_mount_def)
  have E: "events_of (fetchAllTransactions_sync t) = [Invoke ''get_all_transactions'' None]"
    by (simp add: fetchAllTransactions_sync_def)
  have F: "isTauri s \<and> trim (addressBalance s) \<noteq> [] \<longrightarrow>
        fetchBalance Pending s =
          Suspended (s\<lparr>balanceError := None\<rparr>)
            [Invoke ''get_account_balance''
               (Some [(''address'', JStr (addressBalance s))])]"
    by (intro impI, elim conjE) (rule fetchBalance_pending)
  show ?thesis
    by (intro conjI A B C D E F fetchBlocks_returned fetchAllTransactions_pending)
qed

theorem activation_calls_witness:
  "fst (snd (onMount (Some \<lparr>TAURI = False, TAURI_INTERNALS = False, TAURI_METADATA = True\<rparr>)
      2 init)) =
        [SetTimeout RejectTimeoutCb 10000,
         Invoke ''get_latest_blocks'' (Some [(''limit'', JNum 10), (''offset'', JNum 0)]),
         Invoke ''get_current_block'' None,
         SetInterval FetchBlocksCb 10000 2]
   \<and> error (state_of (fetchBlocks 0 Pending Pending
        (init\<lparr>addressBalance := js ''0xdef'', isTauri := True\<rparr>))) = Some fetch_failed_msg
   \<and> fst (snd (onMount (Some \<lparr>TAURI = False, TAURI_INTERNALS = False, TAURI_METADATA = False\<rparr>)
        2 init)) = []
   \<and> fetchBalance Pending (init\<lparr>addressBalance := js ''0xdef'', isTauri := True\<rparr>) =
       Suspended (init\<lparr>addressBalance := js ''0xdef'', isTauri := True\<rparr>)
         [Invoke ''get_account_balance'' (Some [(''address'', JStr (js ''0xdef''))])]"
proof -
  let ?w = "Some \<lparr>TAURI = False, TAURI_INTERNALS = False, TAURI_METADATA = True\<rparr>"
  let ?v = "Some \<lparr>TAURI = False, TAURI_INTERNALS = False, TAURI_METADATA = False\<rparr>"
  let ?s = "init\<lparr>addressBalance := js ''0xdef'', isTauri := True\<rparr>"
  have h1: "detect_tauri ?w" by (simp add: detect_tauri_def)
  have h2: "\<not> detect_tauri ?v" by (simp add: detect_tauri_def)
  have h3: "isTauri ?s" by simp
  have h4: "isTauri ?s \<and> trim (addressBalance ?s) \<noteq> []"
    by (simp add: trim_def js_def is_ws_def)
  note tw = activation_calls [of ?w 2 init 0 Pending Pending tx_init]
  note tv = activation_calls [of ?v 2 init 0 Pending Pending tx_init]
  note ts = activation_calls [of ?w 2 ?s 0 Pending Pending tx_init]
  note a = tw [THEN conjunct1, THEN mp, OF h1]
  note b = ts [THEN conjunct2, THEN conjunct2, THEN conjunct1, THEN mp, OF h3, THEN conjunct1]
  note c = tv [THEN conjunct2, THEN conjunct2, THEN conjunct2, THEN conjunct1, THEN mp, OF h2]
  note d = ts [THEN conjunct2, THEN conjunct2, THEN conjunct2, THEN conjunct2, THEN conjunct2,
      THEN conjunct2, THEN conjunct2, THEN mp, OF h4]
  from a b c d show ?thesis by (simp add: init_def)
qed

end
